theory Spec2Isabelle
  imports
    Complex_Main
    "HOL-Library.AList"
    "HOL-Library.Char_ord"
    "HOL-Library.List_Lexorder"
    "HOL-Library.Product_Lexorder"
begin

section \<open>Python values\<close>

text \<open>
  The orchestration core works on decoded JSON documents (\<^verbatim>\<open>dict[str, Any]\<close>).
  A value is one of the shapes \<^verbatim>\<open>json.loads\<close> produces. A dictionary is an association
  list in insertion order with string keys; a float is the rational it denotes (the
  non-finite floats are left out). A \<open>char\<close> stands for a code point below 256.
\<close>

datatype pyval =
    PNone
  | PBool bool
  | PInt int
  | PFloat rat
  | PStr string
  | PList "pyval list"
  | PDict "(string \<times> pyval) list"

type_synonym pydict = "(string \<times> pyval) list"

datatype error =
    TimelineImportError string "int option" string
  | DemoActionValidationError string "nat option" "string option"
  | AttributeError
  | TypeError
  | ValueError
  | NonStringKey
  | RuntimeError string

text \<open>\<^verbatim>\<open>d.get(k)\<close>: the value, or \<^verbatim>\<open>None\<close> when the key is absent.\<close>

definition dget :: "pydict \<Rightarrow> string \<Rightarrow> pyval" where
  "dget d k = (case map_of d k of None \<Rightarrow> PNone | Some v \<Rightarrow> v)"

text \<open>\<^verbatim>\<open>k in d\<close>.\<close>

definition dhas :: "pydict \<Rightarrow> string \<Rightarrow> bool" where
  "dhas d k = (map_of d k \<noteq> None)"

text \<open>\<^verbatim>\<open>d[k] = v\<close>: an existing key keeps its position, a new key goes last.\<close>

definition dset :: "pydict \<Rightarrow> string \<Rightarrow> pyval \<Rightarrow> pydict" where
  "dset d k v = AList.update k v d"

text \<open>Truth value of a Python object, as \<^verbatim>\<open>bool(x)\<close>, \<^verbatim>\<open>not x\<close> and \<^verbatim>\<open>x or y\<close> use it.\<close>

fun truthy :: "pyval \<Rightarrow> bool" where
  "truthy PNone = False"
| "truthy (PBool b) = b"
| "truthy (PInt i) = (i \<noteq> 0)"
| "truthy (PFloat r) = (r \<noteq> 0)"
| "truthy (PStr s) = (s \<noteq> [])"
| "truthy (PList xs) = (xs \<noteq> [])"
| "truthy (PDict d) = (d \<noteq> [])"

definition py_or :: "pyval \<Rightarrow> pyval \<Rightarrow> pyval" where
  "py_or x y = (if truthy x then x else y)"

subsection \<open>Strings\<close>

definition py_space :: "char \<Rightarrow> bool" where
  "py_space c = (let n = (of_char c :: nat) in
     (9 \<le> n \<and> n \<le> 13) \<or> (28 \<le> n \<and> n \<le> 32) \<or> n = 133 \<or> n = 160)"

definition py_strip :: "string \<Rightarrow> string" where
  "py_strip s = rev (dropWhile py_space (rev (dropWhile py_space s)))"

definition lower_char :: "char \<Rightarrow> char" where
  "lower_char c = (let n = (of_char c :: nat) in
     if (65 \<le> n \<and> n \<le> 90) \<or> (192 \<le> n \<and> n \<le> 222 \<and> n \<noteq> 215)
     then char_of (n + 32) else c)"

definition py_lower :: "string \<Rightarrow> string" where
  "py_lower s = map lower_char s"

definition py_startswith :: "string \<Rightarrow> string \<Rightarrow> bool" where
  "py_startswith s p = (take (length p) s = p)"

text \<open>\<^verbatim>\<open>sub in s\<close> on strings.\<close>

fun py_in :: "string \<Rightarrow> string \<Rightarrow> bool" where
  "py_in sub [] = (sub = [])"
| "py_in sub (c # cs) = (py_startswith (c # cs) sub \<or> py_in sub cs)"




subsection \<open>Numbers and their text\<close>

definition digit_char :: "nat \<Rightarrow> char" where
  "digit_char n = ''0123456789'' ! (n mod 10)"

fun show_nat :: "nat \<Rightarrow> string" where
  "show_nat n = (if n < 10 then [digit_char n] else show_nat (n div 10) @ [digit_char (n mod 10)])"

declare show_nat.simps [simp del]

definition show_int :: "int \<Rightarrow> string" where
  "show_int i = (if i < 0 then CHR ''-'' # show_nat (nat (- i)) else show_nat (nat i))"

definition is_digit :: "char \<Rightarrow> bool" where
  "is_digit c = (let n = (of_char c :: nat) in 48 \<le> n \<and> n \<le> 57)"

definition digit_val :: "char \<Rightarrow> nat" where
  "digit_val c = of_char c - 48"

definition digits_val :: "string \<Rightarrow> nat" where
  "digits_val s = foldl (\<lambda>a c. 10 * a + digit_val c) 0 s"

text \<open>
  \<^verbatim>\<open>int(s)\<close> on a string: surrounding whitespace, an optional sign, decimal digits with
  single underscores between them. \<open>None\<close> stands for the \<^verbatim>\<open>ValueError\<close>.
\<close>

definition int_of_str :: "string \<Rightarrow> int option" where
  "int_of_str s0 =
     (let s = py_strip s0;
          neg = (s \<noteq> [] \<and> hd s = CHR ''-'');
          body = (if s \<noteq> [] \<and> (hd s = CHR ''-'' \<or> hd s = CHR ''+'') then tl s else s)
      in if body = [] \<or> hd body = CHR ''_'' \<or> last body = CHR ''_'' \<or> py_in ''__'' body
            \<or> \<not> list_all (\<lambda>c. is_digit c \<or> c = CHR ''_'') body
         then None
         else let n = int (digits_val (filter is_digit body))
              in Some (if neg then - n else n))"

definition py_trunc :: "rat \<Rightarrow> int" where
  "py_trunc r = (if r < 0 then - \<lfloor>- r\<rfloor> else \<lfloor>r\<rfloor>)"

text \<open>\<^verbatim>\<open>int(x)\<close>; \<open>None\<close> stands for the exception (\<^verbatim>\<open>TypeError\<close> or \<^verbatim>\<open>ValueError\<close>).\<close>

fun py_int :: "pyval \<Rightarrow> int option" where
  "py_int (PInt i) = Some i"
| "py_int (PBool b) = Some (if b then 1 else 0)"
| "py_int (PFloat r) = Some (py_trunc r)"
| "py_int (PStr s) = int_of_str s"
| "py_int PNone = None"
| "py_int (PList xs) = None"
| "py_int (PDict d) = None"

text \<open>
  \<^verbatim>\<open>str(x)\<close>. The text of a float, a list or a dictionary is Python's \<^verbatim>\<open>repr\<close>, which is
  not modelled: it is the parameter \<open>R\<close>, and every statement below holds for any \<open>R\<close>.
\<close>

fun py_str :: "(pyval \<Rightarrow> string) \<Rightarrow> pyval \<Rightarrow> string" where
  "py_str R (PStr s) = s"
| "py_str R (PInt i) = show_int i"
| "py_str R (PBool b) = (if b then ''True'' else ''False'')"
| "py_str R PNone = ''None''"
| "py_str R v = R v"

section \<open>Action validator (demo\_runner/validator.py, demo\_runner/models.py)\<close>

record DemoActionEvent =
  ev_id :: string
  at_ms :: int
  action :: string
  target :: "string option"
  args :: pydict
  timeout_ms :: int
  retries :: int
  source_index :: nat

definition SUPPORTED_ACTIONS :: "string set" where
  "SUPPORTED_ACTIONS = {''goto'', ''click'', ''fill'', ''press'', ''wait''}"

definition MIN_ACTION_TIMEOUT_MS :: int where "MIN_ACTION_TIMEOUT_MS = 100"
definition MAX_ACTION_TIMEOUT_MS :: int where "MAX_ACTION_TIMEOUT_MS = 120000"
definition DEFAULT_ACTION_TIMEOUT_MS :: int where "DEFAULT_ACTION_TIMEOUT_MS = 10000"
definition MIN_ACTION_RETRIES :: int where "MIN_ACTION_RETRIES = 0"
definition MAX_ACTION_RETRIES :: int where "MAX_ACTION_RETRIES = 3"
definition DEFAULT_ACTION_RETRIES :: int where "DEFAULT_ACTION_RETRIES = 1"
definition MAX_WAIT_MS :: int where "MAX_WAIT_MS = 120000"

definition require_target :: "pydict \<Rightarrow> nat \<Rightarrow> string \<Rightarrow> error + string" where
  "require_target act idx action_id =
     (case dget act ''target'' of
        PStr t \<Rightarrow>
          if py_strip t = []
          then Inl (DemoActionValidationError ''action requires a non-empty target'' (Some idx) (Some action_id))
          else Inr (py_strip t)
      | _ \<Rightarrow> Inl (DemoActionValidationError ''action requires a non-empty target'' (Some idx) (Some action_id)))"

definition parse_int_field ::
  "pyval \<Rightarrow> string \<Rightarrow> nat \<Rightarrow> string \<Rightarrow> int \<Rightarrow> int option \<Rightarrow> int option \<Rightarrow> error + int" where
  "parse_int_field v field_name idx action_id minimum maximum dflt =
     (if v = PNone
      then (case dflt of
              Some d \<Rightarrow> Inr d
            | None \<Rightarrow> Inl (DemoActionValidationError (field_name @ '' is required'') (Some idx) (Some action_id)))
      else (case py_int v of
              None \<Rightarrow> Inl (DemoActionValidationError (field_name @ '' must be an integer'') (Some idx) (Some action_id))
            | Some parsed \<Rightarrow>
                if parsed < minimum
                then Inl (DemoActionValidationError (field_name @ '' must be >= '' @ show_int minimum)
                            (Some idx) (Some action_id))
                else (case maximum of
                        None \<Rightarrow> Inr parsed
                      | Some m \<Rightarrow>
                          if parsed > m
                          then Inl (DemoActionValidationError (field_name @ '' must be <= '' @ show_int m)
                                      (Some idx) (Some action_id))
                          else Inr parsed)))"

text \<open>\<^verbatim>\<open>(raw.get("args") or {}).get(k)\<close>: a truthy value that is no dictionary has no \<^verbatim>\<open>get\<close>.\<close>

definition args_get :: "pydict \<Rightarrow> string \<Rightarrow> error + pyval" where
  "args_get raw k =
     (case py_or (dget raw ''args'') (PDict []) of
        PDict a \<Rightarrow> Inr (dget a k)
      | _ \<Rightarrow> Inl AttributeError)"

text \<open>\<^verbatim>\<open>raw.get(k)\<close>, falling back to \<^verbatim>\<open>args\<close> when it is \<^verbatim>\<open>None\<close>.\<close>

definition field_or_arg :: "pydict \<Rightarrow> string \<Rightarrow> error + pyval" where
  "field_or_arg raw k = (if dget raw k = PNone then args_get raw k else Inr (dget raw k))"

text \<open>The type-specific checks of one action, on its copied \<^verbatim>\<open>args\<close>; they return the final \<^verbatim>\<open>args\<close>.\<close>

definition check_fill :: "string \<Rightarrow> pydict \<Rightarrow> nat \<Rightarrow> string \<Rightarrow> error + pydict" where
  "check_fill action_type a idx action_id =
     (if action_type = ''fill'' \<and> \<not> dhas a ''value''
      then Inl (DemoActionValidationError ''fill action requires args.value'' (Some idx) (Some action_id))
      else if action_type = ''fill''
      then (case dget a ''value'' of
              PStr s \<Rightarrow> Inr a
            | PInt i \<Rightarrow> Inr a
            | PFloat r \<Rightarrow> Inr a
            | PBool b \<Rightarrow> Inr a
            | _ \<Rightarrow> Inl (DemoActionValidationError ''fill action args.value must be string/number/bool''
                         (Some idx) (Some action_id)))
      else Inr a)"

definition check_press :: "string \<Rightarrow> pydict \<Rightarrow> nat \<Rightarrow> string \<Rightarrow> error + pydict" where
  "check_press action_type a idx action_id =
     (if action_type = ''press'' \<and> \<not> dhas a ''key''
      then Inl (DemoActionValidationError ''press action requires args.key'' (Some idx) (Some action_id))
      else if action_type = ''press''
      then (case dget a ''key'' of
              PStr k \<Rightarrow>
                if py_strip k = []
                then Inl (DemoActionValidationError ''press action requires non-empty args.key''
                            (Some idx) (Some action_id))
                else Inr (dset a ''key'' (PStr (py_strip k)))
            | _ \<Rightarrow> Inl (DemoActionValidationError ''press action requires non-empty args.key''
                         (Some idx) (Some action_id)))
      else Inr a)"

definition check_wait :: "string \<Rightarrow> pydict \<Rightarrow> nat \<Rightarrow> string \<Rightarrow> error + pydict" where
  "check_wait action_type a idx action_id =
     (if action_type = ''wait''
      then (case parse_int_field (dget a ''ms'') ''wait action args.ms'' idx action_id 0 (Some MAX_WAIT_MS) None of
              Inl e \<Rightarrow> Inl e
            | Inr wait_ms \<Rightarrow> Inr (dset a ''ms'' (PInt wait_ms)))
      else Inr a)"

definition check_target :: "string \<Rightarrow> pydict \<Rightarrow> nat \<Rightarrow> string \<Rightarrow> error + string option" where
  "check_target action_type raw idx action_id =
     (if action_type \<in> {''goto'', ''click'', ''fill'', ''press''}
      then (case require_target raw idx action_id of
              Inl e \<Rightarrow> Inl e
            | Inr t \<Rightarrow>
                if action_type = ''goto'' \<and> \<not> (py_startswith t ''http://'' \<or> py_startswith t ''https://'')
                then Inl (DemoActionValidationError ''goto action target must start with http:// or https://''
                            (Some idx) (Some action_id))
                else Inr (Some t))
      else Inr None)"

definition check_args :: "pydict \<Rightarrow> nat \<Rightarrow> string \<Rightarrow> error + pydict" where
  "check_args raw idx action_id =
     (case dget raw ''args'' of
        PNone \<Rightarrow> Inr []
      | PDict a \<Rightarrow> Inr a
      | _ \<Rightarrow> Inl (DemoActionValidationError ''action args must be an object'' (Some idx) (Some action_id)))"

text \<open>The body of the loop of \<^verbatim>\<open>parse_action_events\<close> for the entry \<open>raw\<close> at position \<open>idx\<close>.\<close>

definition parse_action ::
  "(pyval \<Rightarrow> string) \<Rightarrow> nat \<Rightarrow> string set \<Rightarrow> pyval \<Rightarrow> error + DemoActionEvent" where
  "parse_action R idx seen_action_ids rawv =
     (case rawv of
        PDict raw \<Rightarrow>
          (let action_id = py_strip (py_str R (py_or (dget raw ''id'') (PStr (''a'' @ show_nat (idx + 1)))));
               action_type = py_lower (py_strip (py_str R (py_or (dget raw ''action'') (PStr ''''))))
           in if action_id = []
              then Inl (DemoActionValidationError ''action id must be non-empty'' (Some idx) (Some action_id))
              else if action_id \<in> seen_action_ids
              then Inl (DemoActionValidationError ''duplicate action id'' (Some idx) (Some action_id))
              else if action_type \<notin> SUPPORTED_ACTIONS
              then Inl (DemoActionValidationError
                          (''unsupported action '' @ [CHR 0x27]
                             @ (if action_type = [] then ''<empty>'' else action_type) @ [CHR 0x27])
                          (Some idx) (Some action_id))
              else
           (case parse_int_field (dget raw ''at_ms'') ''action at_ms'' idx action_id 0 None None of
              Inl e \<Rightarrow> Inl e
            | Inr at_v \<Rightarrow>
           (case field_or_arg raw ''timeout_ms'' of
              Inl e \<Rightarrow> Inl e
            | Inr timeout_raw \<Rightarrow>
           (case parse_int_field timeout_raw ''action timeout_ms'' idx action_id
                   MIN_ACTION_TIMEOUT_MS (Some MAX_ACTION_TIMEOUT_MS) (Some DEFAULT_ACTION_TIMEOUT_MS) of
              Inl e \<Rightarrow> Inl e
            | Inr tmo \<Rightarrow>
           (case field_or_arg raw ''retries'' of
              Inl e \<Rightarrow> Inl e
            | Inr retries_raw \<Rightarrow>
           (case parse_int_field retries_raw ''action retries'' idx action_id
                   MIN_ACTION_RETRIES (Some MAX_ACTION_RETRIES) (Some DEFAULT_ACTION_RETRIES) of
              Inl e \<Rightarrow> Inl e
            | Inr rts \<Rightarrow>
           (case check_args raw idx action_id of
              Inl e \<Rightarrow> Inl e
            | Inr a0 \<Rightarrow>
           (case check_target action_type raw idx action_id of
              Inl e \<Rightarrow> Inl e
            | Inr tgt \<Rightarrow>
           (case check_fill action_type a0 idx action_id of
              Inl e \<Rightarrow> Inl e
            | Inr a1 \<Rightarrow>
           (case check_press action_type a1 idx action_id of
              Inl e \<Rightarrow> Inl e
            | Inr a2 \<Rightarrow>
           (case check_wait action_type a2 idx action_id of
              Inl e \<Rightarrow> Inl e
            | Inr a3 \<Rightarrow>
                Inr \<lparr>ev_id = action_id, at_ms = at_v, action = action_type, target = tgt, args = a3,
                     timeout_ms = tmo, retries = rts, source_index = idx\<rparr>)))))))))))
      | _ \<Rightarrow> Inl (DemoActionValidationError ''action event must be an object'' (Some idx) None))"

text \<open>The loop over \<^verbatim>\<open>enumerate(raw_actions)\<close>, from position \<open>idx\<close> on.\<close>

fun parse_actions ::
  "(pyval \<Rightarrow> string) \<Rightarrow> nat \<Rightarrow> string set \<Rightarrow> pyval list \<Rightarrow> error + DemoActionEvent list" where
  "parse_actions R idx seen [] = Inr []"
| "parse_actions R idx seen (raw # rest) =
     (case parse_action R idx seen raw of
        Inl e \<Rightarrow> Inl e
      | Inr ev \<Rightarrow>
          (case parse_actions R (Suc idx) (insert (ev_id ev) seen) rest of
             Inl e \<Rightarrow> Inl e
           | Inr evs \<Rightarrow> Inr (ev # evs)))"

definition action_sort_key :: "DemoActionEvent \<Rightarrow> int \<times> nat \<times> string" where
  "action_sort_key event = (at_ms event, source_index event, ev_id event)"

definition parse_action_events :: "(pyval \<Rightarrow> string) \<Rightarrow> pydict \<Rightarrow> error + DemoActionEvent list" where
  "parse_action_events R timeline =
     (case dget timeline ''action_events'' of
        PList raw_actions \<Rightarrow>
          (case parse_actions R 0 {} raw_actions of
             Inl e \<Rightarrow> Inl e
           | Inr parsed \<Rightarrow> Inr (sort_key action_sort_key parsed))
      | _ \<Rightarrow> Inr [])"

text \<open>A fixed stand-in for \<^verbatim>\<open>repr\<close>, for evaluating the model on concrete inputs.\<close>

definition sample_repr :: "pyval \<Rightarrow> string" where
  "sample_repr v = ''<repr>''"


section \<open>Demo runner (demo\_runner/runner.py, demo\_runner/models.py)\<close>

text \<open>One entry of \<^verbatim>\<open>attempt_logs\<close>.\<close>

record attempt_log =
  log_attempt :: nat
  log_status :: string
  log_elapsed_ms :: int
  log_retryable :: bool
  log_error_type :: string
  log_error :: string

text \<open>
  \<^verbatim>\<open>DemoActionExecution\<close>. The fields \<^verbatim>\<open>source_index\<close>, \<^verbatim>\<open>action\<close> and \<^verbatim>\<open>timeout_ms\<close> carry the
  prefix \<open>ex_\<close>, since \<^verbatim>\<open>DemoActionEvent\<close> has fields of the same names.
\<close>

record DemoActionExecution =
  action_id :: string
  ex_source_index :: nat
  ex_action :: string
  planned_at_ms :: int
  actual_at_ms :: int
  drift_ms :: int
  ex_timeout_ms :: int
  max_retries :: int
  attempts :: nat
  retry_count :: int
  status :: string
  error :: string
  error_type :: string
  screenshot_path :: string
  attempt_logs :: "attempt_log list"



definition classify_error_type :: "string \<Rightarrow> string" where
  "classify_error_type error_text =
     (let lowered = py_lower error_text
      in if py_in ''timeout'' lowered then ''timeout''
         else if py_in ''target closed'' lowered \<or> py_in ''context closed'' lowered
                 \<or> py_in ''browser has been closed'' lowered
         then ''transient_browser''
         else if py_in ''net::'' lowered \<or> py_in ''connection reset'' lowered
         then ''transient_network''
         else ''action_error'')"

definition is_retryable_error :: "string \<Rightarrow> bool" where
  "is_retryable_error et = (et \<in> {''timeout'', ''transient_browser'', ''transient_network''})"







section \<open>Project store (storage.py)\<close>

subsection \<open>More of Python\<close>

text \<open>
  \<^verbatim>\<open>x == y\<close>: numbers compare by value whatever their type (\<^verbatim>\<open>True == 1 == 1.0\<close>), lists
  element by element, dictionaries as sets of items whatever their order. \<open>canon\<close> maps
  equal values to one representative.
\<close>

fun canon :: "pyval \<Rightarrow> pyval" where
  "canon PNone = PNone"
| "canon (PBool b) = PInt (if b then 1 else 0)"
| "canon (PInt i) = PInt i"
| "canon (PFloat r) = (if r = of_int \<lfloor>r\<rfloor> then PInt \<lfloor>r\<rfloor> else PFloat r)"
| "canon (PStr s) = PStr s"
| "canon (PList xs) = PList (map canon xs)"
| "canon (PDict d) = PDict (sort_key fst (map (map_prod id canon) d))"

definition py_eq :: "pyval \<Rightarrow> pyval \<Rightarrow> bool" where
  "py_eq x y = (canon x = canon y)"

text \<open>
  One item of the sequence given to \<^verbatim>\<open>dict(...)\<close>: a two-element list, a two-character string
  or a two-key dictionary. A key that is not a string leaves the value type of this model,
  which the error \<open>NonStringKey\<close> marks; the run is not followed further.
\<close>

fun dict_item :: "pyval \<Rightarrow> error + (string \<times> pyval)" where
  "dict_item (PList [PStr k, v]) = Inr (k, v)"
| "dict_item (PList [PList k, v]) = Inl TypeError"
| "dict_item (PList [PDict k, v]) = Inl TypeError"
| "dict_item (PList [k, v]) = Inl NonStringKey"
| "dict_item (PList xs) = Inl ValueError"
| "dict_item (PStr [a, b]) = Inr ([a], PStr [b])"
| "dict_item (PStr s) = Inl ValueError"
| "dict_item (PDict [(k1, v1), (k2, v2)]) = Inr (k1, PStr k2)"
| "dict_item (PDict d) = Inl ValueError"
| "dict_item v = Inl TypeError"

fun dict_items :: "pydict \<Rightarrow> pyval list \<Rightarrow> error + pydict" where
  "dict_items acc [] = Inr acc"
| "dict_items acc (x # xs) =
     (case dict_item x of
        Inl e \<Rightarrow> Inl e
      | Inr (k, v) \<Rightarrow> dict_items (dset acc k v) xs)"

text \<open>\<^verbatim>\<open>dict(x)\<close>.\<close>

fun py_dict :: "pyval \<Rightarrow> error + pydict" where
  "py_dict (PDict d) = Inr d"
| "py_dict (PList xs) = dict_items [] xs"
| "py_dict (PStr s) = (if s = [] then Inr [] else Inl ValueError)"
| "py_dict v = Inl TypeError"

text \<open>\<^verbatim>\<open>dict(x or {})\<close>.\<close>

definition dict_or_empty :: "pyval \<Rightarrow> error + pydict" where
  "dict_or_empty x = py_dict (py_or x (PDict []))"

definition is_dict :: "pyval \<Rightarrow> bool" where
  "is_dict v = (case v of PDict d \<Rightarrow> True | _ \<Rightarrow> False)"

definition is_list :: "pyval \<Rightarrow> bool" where
  "is_list v = (case v of PList xs \<Rightarrow> True | _ \<Rightarrow> False)"

definition is_str :: "pyval \<Rightarrow> bool" where
  "is_str v = (case v of PStr s \<Rightarrow> True | _ \<Rightarrow> False)"

text \<open>The dictionary behind a value known to be one (empty otherwise), and likewise for lists.\<close>

definition the_dict :: "pyval \<Rightarrow> pydict" where
  "the_dict v = (case v of PDict d \<Rightarrow> d | _ \<Rightarrow> [])"

definition the_list :: "pyval \<Rightarrow> pyval list" where
  "the_list v = (case v of PList xs \<Rightarrow> xs | _ \<Rightarrow> [])"

text \<open>
  The clock: \<^verbatim>\<open>utc_now_iso()\<close> is read at most twice while one record is normalised, once
  for the id and once for \<^verbatim>\<open>created_at\<close>; the two readings are given.
\<close>

type_synonym stamps = "string \<times> string"

text \<open>\<^verbatim>\<open>.replace(':', '').replace('-', '')\<close>.\<close>

definition iso_compact :: "string \<Rightarrow> string" where
  "iso_compact s = filter (\<lambda>c. c \<noteq> CHR ''-'') (filter (\<lambda>c. c \<noteq> CHR '':'') s)"

subsection \<open>History records\<close>

definition SCHEMA_VERSION :: string where "SCHEMA_VERSION = ''2.0.0''"
definition MAX_DEMO_RUN_HISTORY :: int where "MAX_DEMO_RUN_HISTORY = 50"
definition MAX_RENDER_HISTORY :: int where "MAX_RENDER_HISTORY = 50"
definition TIMELINE_VERSION :: string where "TIMELINE_VERSION = ''1.0''"

definition coerce_int :: "pyval \<Rightarrow> int \<Rightarrow> int" where
  "coerce_int v dflt = (case py_int v of Some i \<Rightarrow> i | None \<Rightarrow> dflt)"

definition history_limit :: "pyval \<Rightarrow> int \<Rightarrow> int" where
  "history_limit v dflt =
     (let parsed = coerce_int v dflt in if parsed < 1 then dflt else min parsed 500)"

text \<open>\<^verbatim>\<open>records[-limit:]\<close> is the tail for a positive limit, and a slice from the front otherwise.\<close>

definition trim_history :: "'a list \<Rightarrow> int \<Rightarrow> 'a list" where
  "trim_history records limit =
     (if int (length records) \<le> limit then records
      else if limit > 0 then drop (length records - nat limit) records
      else drop (nat (- limit)) records)"

fun stage_timings_loop :: "(pyval \<Rightarrow> string) \<Rightarrow> pydict \<Rightarrow> pydict \<Rightarrow> pydict" where
  "stage_timings_loop R normalized [] = normalized"
| "stage_timings_loop R normalized ((key, raw) # rest) =
     (let name = py_strip key
      in if name = [] then stage_timings_loop R normalized rest
         else stage_timings_loop R (dset normalized name (PInt (max 0 (coerce_int raw 0)))) rest)"

definition normalize_stage_timings :: "(pyval \<Rightarrow> string) \<Rightarrow> pyval \<Rightarrow> pydict" where
  "normalize_stage_timings R v =
     (case v of PDict d \<Rightarrow> stage_timings_loop R [] d | _ \<Rightarrow> [])"

text \<open>The loop over \<^verbatim>\<open>executions\<close> in \<^verbatim>\<open>_normalize_error_summary\<close>: failed ids and error-type counts.\<close>

fun failed_executions ::
  "(pyval \<Rightarrow> string) \<Rightarrow> string list \<Rightarrow> pydict \<Rightarrow> pyval list \<Rightarrow> string list \<times> pydict" where
  "failed_executions R failed_ids error_types [] = (failed_ids, error_types)"
| "failed_executions R failed_ids error_types (entry # rest) =
     (case entry of
        PDict e \<Rightarrow>
          if py_str R (py_or (dget e ''status'') (PStr ''ok'')) = ''ok''
          then failed_executions R failed_ids error_types rest
          else
            (let aid = py_strip (py_str R (py_or (dget e ''action_id'') (PStr '''')));
                 ids = (if aid = [] then failed_ids else failed_ids @ [aid]);
                 et0 = py_strip (py_str R (py_or (dget e ''error_type'') (PStr ''action_error'')));
                 et = (if et0 = [] then ''action_error'' else et0);
                 cnt = (case map_of error_types et of
                          Some (PInt c) \<Rightarrow> c
                        | _ \<Rightarrow> 0)
             in failed_executions R ids (dset error_types et (PInt (cnt + 1))) rest)
      | _ \<Rightarrow> failed_executions R failed_ids error_types rest)"

definition normalize_error_summary :: "(pyval \<Rightarrow> string) \<Rightarrow> pydict \<Rightarrow> pydict" where
  "normalize_error_summary R record =
     (let summary = the_dict (dget record ''error_summary'');
          execution_summary = dget record ''execution_summary'';
          failed_actions =
            (case execution_summary of
               PDict es \<Rightarrow> coerce_int (dget es ''error'') 0
             | _ \<Rightarrow> 0);
          fe = failed_executions R [] [] (the_list (dget record ''executions''));
          message = py_strip (py_str R
                      (py_or (py_or (dget summary ''message'') (dget record ''error'')) (PStr '''')));
          has_error = (truthy (dget summary ''has_error'') \<or> message \<noteq> [] \<or> failed_actions > 0)
      in [(''has_error'', PBool has_error),
          (''message'', PStr message),
          (''failed_actions'', PInt failed_actions),
          (''failed_action_ids'', PList (map PStr (fst fe))),
          (''error_types'', PDict (snd fe))])"

definition normalize_demo_run_record ::
  "(pyval \<Rightarrow> string) \<Rightarrow> stamps \<Rightarrow> pydict \<Rightarrow> string option \<Rightarrow> error + pydict" where
  "normalize_demo_run_record R now record run_id_fallback =
     (let rid0 = py_strip (py_str R (py_or (dget record ''run_id'') (PStr '''')));
          rid1 = (if rid0 = []
                  then py_strip (case run_id_fallback of None \<Rightarrow> '''' | Some f \<Rightarrow> f)
                  else rid0);
          run_id = (if rid1 = [] then ''demo_'' @ iso_compact (fst now) else rid1);
          n1 = dset record ''run_id'' (PStr run_id);
          n2 = (if dhas n1 ''project_id''
                then dset n1 ''project_id''
                       (PStr (py_strip (py_str R (py_or (dget n1 ''project_id'') (PStr '''')))))
                else n1);
          n3 = dset n2 ''created_at'' (PStr (py_str R (py_or (dget n2 ''created_at'') (PStr (snd now)))));
          n4 = dset n3 ''mode'' (PStr (py_str R (py_or (dget n3 ''mode'') (PStr ''demo_capture_unknown''))));
          n5 = dset n4 ''execution_mode''
                 (PStr (py_str R (py_or (dget n4 ''execution_mode'') (PStr ''playwright_optional''))));
          n6 = dset n5 ''actions_total'' (PInt (max 0 (coerce_int (dget n5 ''actions_total'') 0)));
          n7 = dset n6 ''actions_executed'' (PInt (max 0 (coerce_int (dget n6 ''actions_executed'') 0)));
          n8 = dset n7 ''stage_timings_ms'' (PDict (normalize_stage_timings R (dget n7 ''stage_timings_ms'')))
      in case dict_or_empty (dget n8 ''drift_stats'') of
           Inl e \<Rightarrow> Inl e
         | Inr drift \<Rightarrow>
        (let n9 = dset n8 ''drift_stats'' (PDict drift)
         in case dict_or_empty (dget n9 ''execution_summary'') of
              Inl e \<Rightarrow> Inl e
            | Inr es \<Rightarrow>
           (let n10 = dset n9 ''execution_summary'' (PDict es)
            in case dict_or_empty (dget n10 ''correlation'') of
                 Inl e \<Rightarrow> Inl e
               | Inr corr \<Rightarrow>
                  (let n11 = dset n10 ''correlation'' (PDict corr)
                   in Inr (dset n11 ''error_summary'' (PDict (normalize_error_summary R n11)))))))"

definition normalize_render_record ::
  "(pyval \<Rightarrow> string) \<Rightarrow> stamps \<Rightarrow> pydict \<Rightarrow> string option \<Rightarrow> error + pydict" where
  "normalize_render_record R now record render_id_fallback =
     (let rid0 = py_strip (py_str R (py_or (dget record ''render_id'') (PStr '''')));
          rid1 = (if rid0 = []
                  then py_strip (case render_id_fallback of None \<Rightarrow> '''' | Some f \<Rightarrow> f)
                  else rid0);
          render_id = (if rid1 = [] then ''render_'' @ iso_compact (fst now) else rid1);
          n1 = dset record ''render_id'' (PStr render_id);
          n2 = dset n1 ''created_at'' (PStr (py_str R (py_or (dget n1 ''created_at'') (PStr (snd now)))));
          n3 = dset n2 ''mode'' (PStr (py_str R (py_or (dget n2 ''mode'') (PStr ''tts_only''))));
          n4 = dset n3 ''status'' (PStr (py_str R (py_or (dget n3 ''status'') (PStr ''completed''))));
          n5 = dset n4 ''stage_timings_ms'' (PDict (normalize_stage_timings R (dget n4 ''stage_timings_ms'')))
      in case dict_or_empty (dget n5 ''correlation'') of
           Inl e \<Rightarrow> Inl e
         | Inr corr \<Rightarrow>
            (let n6 = dset n5 ''correlation'' (PDict corr);
                 n7 = dset n6 ''error_summary'' (PDict (normalize_error_summary R n6))
             in Inr (if truthy (dget (the_dict (dget n7 ''error_summary'')) ''has_error'')
                     then dset n7 ''status'' (PStr (py_str R (py_or (dget n7 ''status'') (PStr ''failed''))))
                     else n7)))"

definition default_renders :: pydict where
  "default_renders = [(''last_render_id'', PNone), (''history'', PList [])]"

definition default_demo_state :: pydict where
  "default_demo_state = [(''last_run_id'', PNone), (''runs'', PList [])]"

text \<open>
  \<^verbatim>\<open>append_demo_run\<close> and \<^verbatim>\<open>append_render_history\<close> mutate the project and return the
  normalised record; here they return the new project with it.
\<close>

definition append_demo_run ::
  "(pyval \<Rightarrow> string) \<Rightarrow> stamps \<Rightarrow> pydict \<Rightarrow> pydict \<Rightarrow> string option \<Rightarrow> int
     \<Rightarrow> error + (pydict \<times> pydict)" where
  "append_demo_run R now proj run_record run_id hl =
     (let demo_state = (case dget proj ''demo'' of PDict d \<Rightarrow> d | _ \<Rightarrow> default_demo_state);
          runs = (case dget demo_state ''runs'' of PList xs \<Rightarrow> xs | _ \<Rightarrow> [])
      in case normalize_demo_run_record R now run_record run_id of
           Inl e \<Rightarrow> Inl e
         | Inr normalized \<Rightarrow>
            (let runs' = trim_history (runs @ [PDict normalized])
                           (history_limit (PInt hl) MAX_DEMO_RUN_HISTORY);
                 d1 = dset demo_state ''runs'' (PList runs');
                 d2 = dset d1 ''last_run_id''
                        (PStr (py_str R (py_or (dget normalized ''run_id'') (dget d1 ''last_run_id''))))
             in Inr (dset proj ''demo'' (PDict d2), normalized)))"

definition append_render_history ::
  "(pyval \<Rightarrow> string) \<Rightarrow> stamps \<Rightarrow> pydict \<Rightarrow> pydict \<Rightarrow> string option \<Rightarrow> int
     \<Rightarrow> error + (pydict \<times> pydict)" where
  "append_render_history R now proj render_record render_id hl =
     (let renders = (case dget proj ''renders'' of PDict d \<Rightarrow> d | _ \<Rightarrow> default_renders);
          history = (case dget renders ''history'' of PList xs \<Rightarrow> xs | _ \<Rightarrow> [])
      in case normalize_render_record R now render_record render_id of
           Inl e \<Rightarrow> Inl e
         | Inr normalized \<Rightarrow>
            (let history' = trim_history (history @ [PDict normalized])
                              (history_limit (PInt hl) MAX_RENDER_HISTORY);
                 r1 = dset renders ''history'' (PList history');
                 r2 = dset r1 ''last_render_id''
                        (PStr (py_str R (py_or (dget normalized ''render_id'') (dget r1 ''last_render_id''))))
             in Inr (dset proj ''renders'' (PDict r2), normalized)))"

text \<open>A project whose render history and demo-run history already hold fifty entries each.\<close>

definition sample_full_project :: pydict where
  "sample_full_project =
     [(''renders'', PDict [(''last_render_id'', PStr ''old''),
                           (''history'', PList (replicate 50 (PDict [(''render_id'', PStr ''old'')])))]),
      (''demo'', PDict [(''last_run_id'', PStr ''old''),
                        (''runs'', PList (replicate 50 (PDict [(''run_id'', PStr ''old'')])))])]"

definition sample_stamps :: stamps where
  "sample_stamps = (''2026-01-02T03:04:05+00:00'', ''2026-01-02T03:04:06+00:00'')"

section \<open>Unified pipeline (pipeline/unified.py)\<close>

text \<open>
  The file system as the pipeline reads it: \<open>path_str p\<close> is \<^verbatim>\<open>str(Path(p))\<close>, and \<open>stat q\<close> is
  the size of the file at \<open>q\<close>, or \<open>None\<close> when nothing exists there.
\<close>

record fs_view =
  path_str :: "string \<Rightarrow> string"
  stat :: "string \<Rightarrow> nat option"

text \<open>
  The three-valued \<^verbatim>\<open>raw_demo_playable\<close> of \<^verbatim>\<open>run_unified_pipeline\<close>: \<open>None\<close> when the
  artifact summary is no dictionary or has no such key, else the truth value of the entry.
\<close>

definition raw_demo_playable :: "pydict \<Rightarrow> bool option" where
  "raw_demo_playable demo_result =
     (case dget demo_result ''artifact_summary'' of
        PDict artifact_summary \<Rightarrow>
          if dhas artifact_summary ''raw_demo_playable''
          then Some (truthy (dget artifact_summary ''raw_demo_playable''))
          else None
      | _ \<Rightarrow> None)"

definition select_source_video :: "fs_view \<Rightarrow> string \<Rightarrow> pydict \<Rightarrow> string" where
  "select_source_video fs input_mp4 demo_result =
     (case dget demo_result ''raw_demo_mp4'' of
        PStr raw_demo_mp4 \<Rightarrow>
          (let candidate = path_str fs raw_demo_mp4;
               candidate_ok = (case stat fs candidate of None \<Rightarrow> False | Some st_size \<Rightarrow> st_size > 0)
           in if raw_demo_playable demo_result = Some True \<and> candidate_ok then candidate
              else if raw_demo_playable demo_result = None \<and> candidate_ok then candidate
              else input_mp4)
      | _ \<Rightarrow> input_mp4)"

text \<open>The bookkeeping \<^verbatim>\<open>run_unified_pipeline\<close> writes into the demo result before it is stored.\<close>

definition tag_demo_result :: "pydict \<Rightarrow> string \<Rightarrow> string option \<Rightarrow> string \<Rightarrow> string \<Rightarrow> pydict" where
  "tag_demo_result demo_result demo_run_id queue_job_id queue_name unified_run_id =
     (let job = (case queue_job_id of None \<Rightarrow> PNone | Some j \<Rightarrow> PStr j);
          d1 = dset demo_result ''run_id'' (PStr demo_run_id);
          d2 = dset d1 ''queue_job_id'' job;
          d3 = dset d2 ''history_limit'' (PInt MAX_DEMO_RUN_HISTORY);
          d4 = (if is_dict (dget d3 ''correlation'') then d3 else dset d3 ''correlation'' (PDict []));
          c1 = dset (the_dict (dget d4 ''correlation'')) ''queue_job_id'' job;
          c2 = dset c1 ''queue_name'' (PStr queue_name);
          c3 = dset c2 ''trigger'' (PStr ''unified_pipeline'');
          c4 = dset c3 ''unified_run_id'' (PStr unified_run_id)
      in dset d4 ''correlation'' (PDict c4))"

text \<open>
  \<^verbatim>\<open>run_unified_pipeline\<close> from the return of the demo capture to the choice of
  \<^verbatim>\<open>source_video_path\<close>: the result is the project with the stored demo run, and the path
  the render is invoked with.
\<close>

definition unified_source_video ::
  "(pyval \<Rightarrow> string) \<Rightarrow> stamps \<Rightarrow> fs_view \<Rightarrow> string \<Rightarrow> pydict \<Rightarrow> pydict
     \<Rightarrow> string \<Rightarrow> string option \<Rightarrow> string \<Rightarrow> string \<Rightarrow> error + (pydict \<times> string)" where
  "unified_source_video R now fs input_mp4 proj demo_result0
       demo_run_id queue_job_id queue_name unified_run_id =
     (let demo_result = tag_demo_result demo_result0 demo_run_id queue_job_id queue_name unified_run_id
      in if \<not> truthy (dget demo_result ''ok'')
         then Inl (RuntimeError (py_str R (py_or (dget demo_result ''error'') (PStr ''demo capture failed''))))
         else (case append_demo_run R now proj demo_result (Some demo_run_id) MAX_DEMO_RUN_HISTORY of
                 Inl e \<Rightarrow> Inl e
               | Inr (proj', stored) \<Rightarrow> Inr (proj', select_source_video fs input_mp4 stored)))"

text \<open>Scenario 6 of the specification: the demo returns a playable, non-empty raw demo.\<close>

definition sample_fs :: fs_view where
  "sample_fs = \<lparr>path_str = (\<lambda>p. p),
                stat = (\<lambda>p. if p = ''/data/run_1/raw_demo.mp4'' then Some 10
                             else if p = ''/data/input.mp4'' then Some 12 else None)\<rparr>"

definition sample_demo_result :: pydict where
  "sample_demo_result =
     [(''ok'', PBool True), (''raw_demo_mp4'', PStr ''/data/run_1/raw_demo.mp4''),
      (''mode'', PStr ''demo_capture_playwright''),
      (''artifact_summary'', PDict [(''raw_demo_playable'', PBool True)])]"

section \<open>TTS cache key (tts/cache.py)\<close>






section \<open>Demo runner: one run (demo\_runner/dependencies.py, demo\_runner/runner.py)\<close>






text \<open>The attributes of a \<^verbatim>\<open>DemoRunner\<close>, with \<open>self_\<close> for \<^verbatim>\<open>self.\<close>.\<close>

record DemoRunner =
  self_project_id :: string
  self_logs_dir :: string
  self_artifacts_dir :: string
  self_execution_mode :: string
  self_run_id :: string
  self_queue_job_id :: "string option"
  self_executions :: "DemoActionExecution list"
  self_trace_path :: string
  self_recording_source_path :: string
  self_recording_ffmpeg_cmd :: "string list"








definition execution_summary :: "DemoRunner \<Rightarrow> pydict" where
  "execution_summary r =
     (let total = int (length (self_executions r));
          ok_count = int (length (filter (\<lambda>e. status e = ''ok'') (self_executions r)))
      in [(''total'', PInt total),
          (''ok'', PInt ok_count),
          (''error'', PInt (total - ok_count)),
          (''retries'', PInt (sum_list (map retry_count (self_executions r)))),
          (''timeouts'', PInt (int (length (filter (\<lambda>e. error_type e = ''timeout'') (self_executions r)))))])"













section \<open>Timeline import (timeline/models.py, normalizer.py, parsers\_timestamped\_txt.py, importers.py)\<close>

text \<open>\<^verbatim>\<open>NarrationEvent\<close>, \<^verbatim>\<open>ActionEvent\<close> and \<^verbatim>\<open>Timeline\<close>; the fields carry a prefix.\<close>

record NarrationEvent =
  ne_id :: string
  ne_start_ms :: int
  ne_end_ms :: int
  ne_text :: string
  ne_voice_profile_id :: string
  ne_meta :: pydict
  ne_extra :: pydict

record ActionEvent =
  ae_id :: string
  ae_at_ms :: int
  ae_action :: string
  ae_target :: "string option"
  ae_args :: pydict
  ae_extra :: pydict

record Timeline =
  timeline_version :: string
  narration_events :: "NarrationEvent list"
  action_events :: "ActionEvent list"

definition NarrationEvent_from_dict :: "(pyval \<Rightarrow> string) \<Rightarrow> pydict \<Rightarrow> error + NarrationEvent" where
  "NarrationEvent_from_dict R data =
     (case dict_or_empty (dget data ''meta'') of
        Inl e \<Rightarrow> Inl e
      | Inr m \<Rightarrow>
          Inr \<lparr>ne_id = py_str R (py_or (dget data ''id'') (PStr '''')),
               ne_start_ms = coerce_int (dget data ''start_ms'') 0,
               ne_end_ms = coerce_int (dget data ''end_ms'') 0,
               ne_text = py_str R (py_or (dget data ''text'') (PStr '''')),
               ne_voice_profile_id = py_str R (py_or (dget data ''voice_profile_id'') (PStr ''default'')),
               ne_meta = m,
               ne_extra = filter (\<lambda>kv. fst kv \<notin> {''id'', ''start_ms'', ''end_ms'', ''text'',
                                                  ''voice_profile_id'', ''meta''}) data\<rparr>)"

subsection \<open>normalize\_narration\_events\<close>

text \<open>An entry of \<^verbatim>\<open>prepared\<close>: the raw event, its start, its end and its 1-based input position.\<close>

record prepared_event =
  p_raw :: pydict
  p_start_ms :: int
  p_end_ms :: int
  p_index :: nat

fun prepare_events :: "(pyval \<Rightarrow> string) \<Rightarrow> nat \<Rightarrow> pyval list \<Rightarrow> error + prepared_event list" where
  "prepare_events R idx [] = Inr []"
| "prepare_events R idx (event # rest) =
     (case event of
        PDict ev \<Rightarrow>
          if py_strip (py_str R (py_or (dget ev ''text'') (PStr ''''))) = []
          then Inl (TimelineImportError ''narration text cannot be empty''
                      (case dget ev ''meta'' of
                         PDict m \<Rightarrow>
                           (if coerce_int (dget m ''source_line'') 0 = 0 then None
                            else Some (coerce_int (dget m ''source_line'') 0))
                       | _ \<Rightarrow> None)
                      ''empty_text'')
          else (case prepare_events R (Suc idx) rest of
                  Inl e \<Rightarrow> Inl e
                | Inr others \<Rightarrow>
                    Inr (\<lparr>p_raw = ev,
                          p_start_ms = max 0 (coerce_int (dget ev ''start_ms'') 0),
                          p_end_ms = coerce_int (dget ev ''end_ms'') (- 1),
                          p_index = idx\<rparr> # others))
      | _ \<Rightarrow> Inl (TimelineImportError (''event #'' @ show_nat idx @ '' is not an object'')
                   None ''invalid_event''))"

text \<open>
  The end a narration event gets: a missing or inverted end becomes the start of the next
  later event, or the start plus the default duration; it is clamped to the video duration
  and kept at least the minimum duration after the start.
\<close>

definition resolve_end_ms ::
  "int option \<Rightarrow> int \<Rightarrow> int \<Rightarrow> prepared_event \<Rightarrow> prepared_event list \<Rightarrow> int" where
  "resolve_end_ms bounded_duration default_duration_ms min_duration_ms item later =
     (let start = p_start_ms item;
          e1 = (if p_end_ms item \<le> start
                then (case find (\<lambda>next_item. p_start_ms next_item > start) later of
                        Some next_item \<Rightarrow> p_start_ms next_item
                      | None \<Rightarrow> start + default_duration_ms)
                else p_end_ms item);
          e2 = (case bounded_duration of
                  Some b \<Rightarrow> if e1 > b then b else e1
                | None \<Rightarrow> e1)
      in if e2 \<le> start then start + min_duration_ms else e2)"

text \<open>The second loop, over \<^verbatim>\<open>enumerate(prepared)\<close> from position \<open>idx\<close> on.\<close>

fun normalize_loop ::
  "(pyval \<Rightarrow> string) \<Rightarrow> int option \<Rightarrow> int \<Rightarrow> int \<Rightarrow> nat \<Rightarrow> (string \<times> nat) list
     \<Rightarrow> prepared_event list \<Rightarrow> error + pydict list" where
  "normalize_loop R bounded dflt mn idx seen_ids [] = Inr []"
| "normalize_loop R bounded dflt mn idx seen_ids (item # later) =
     (if (case bounded of Some b \<Rightarrow> p_start_ms item \<ge> b | None \<Rightarrow> False)
      then normalize_loop R bounded dflt mn (Suc idx) seen_ids later
      else
        (let source = p_raw item;
             end_ms = resolve_end_ms bounded dflt mn item later;
             base_id = py_str R (py_or (dget source ''id'') (PStr (''n'' @ show_nat (idx + 1))));
             event_id = (case map_of seen_ids base_id of
                           Some c \<Rightarrow> base_id @ ''_'' @ show_nat (c + 1)
                         | None \<Rightarrow> base_id);
             seen' = (case map_of seen_ids base_id of
                        Some c \<Rightarrow> AList.update base_id (c + 1) seen_ids
                      | None \<Rightarrow> AList.update base_id 0 seen_ids)
         in case dict_or_empty (dget source ''meta'') of
              Inl e \<Rightarrow> Inl e
            | Inr m \<Rightarrow>
               (case normalize_loop R bounded dflt mn (Suc idx) seen' later of
                  Inl e \<Rightarrow> Inl e
                | Inr out \<Rightarrow>
                    Inr ([(''id'', PStr event_id),
                          (''start_ms'', PInt (p_start_ms item)),
                          (''end_ms'', PInt end_ms),
                          (''text'', PStr (py_strip (py_str R (py_or (dget source ''text'') (PStr ''''))))),
                          (''voice_profile_id'',
                             PStr (py_str R (py_or (dget source ''voice_profile_id'') (PStr ''default'')))),
                          (''meta'', PDict m)] # out))))"

definition normalize_narration_events ::
  "(pyval \<Rightarrow> string) \<Rightarrow> pyval list \<Rightarrow> int option \<Rightarrow> int \<Rightarrow> int \<Rightarrow> error + pydict list" where
  "normalize_narration_events R raw_events video_duration_ms default_duration_ms min_duration_ms =
     (if raw_events = [] then Inr []
      else (case prepare_events R 1 raw_events of
              Inl e \<Rightarrow> Inl e
            | Inr prepared \<Rightarrow>
               (let bounded_duration =
                      (case video_duration_ms of
                         Some d \<Rightarrow> if d > 0 then Some d else None
                       | None \<Rightarrow> None)
                in case normalize_loop R bounded_duration default_duration_ms min_duration_ms 0 []
                          (sort_key (\<lambda>item. (p_start_ms item, p_index item)) prepared) of
                     Inl e \<Rightarrow> Inl e
                   | Inr normalized \<Rightarrow>
                       if normalized = []
                       then Inl (TimelineImportError ''no usable narration events after normalization''
                                   None ''empty_output'')
                       else Inr normalized)))"

text \<open>
  Three events with the ids \<^verbatim>\<open>a\<close>, \<^verbatim>\<open>a\<close> and \<^verbatim>\<open>a_1\<close>: the second is renamed to the id
  of the third.
\<close>

definition sample_colliding_events :: "pyval list" where
  "sample_colliding_events =
     [PDict [(''id'', PStr ''a''), (''start_ms'', PInt 0), (''end_ms'', PInt 1000), (''text'', PStr ''one'')],
      PDict [(''id'', PStr ''a''), (''start_ms'', PInt 1000), (''end_ms'', PInt 2000), (''text'', PStr ''two'')],
      PDict [(''id'', PStr ''a_1''), (''start_ms'', PInt 2000), (''end_ms'', PInt 3000), (''text'', PStr ''three'')]]"

subsection \<open>parse\_timestamped\_txt\<close>

text \<open>The line boundaries of \<^verbatim>\<open>str.splitlines()\<close> below code point 256.\<close>

definition line_break :: "char \<Rightarrow> bool" where
  "line_break c = (let n = (of_char c :: nat) in (10 \<le> n \<and> n \<le> 13) \<or> (28 \<le> n \<and> n \<le> 30) \<or> n = 133)"

fun splitlines_acc :: "string \<Rightarrow> string \<Rightarrow> string list" where
  "splitlines_acc cur [] = (if cur = [] then [] else [rev cur])"
| "splitlines_acc cur [c] = (if line_break c then [rev cur] else [rev (c # cur)])"
| "splitlines_acc cur (c # d # cs) =
     (if c = CHR 0x0D \<and> d = CHR 0x0A then rev cur # splitlines_acc [] cs
      else if line_break c then rev cur # splitlines_acc [] (d # cs)
      else splitlines_acc (c # cur) (d # cs))"

definition py_splitlines :: "string \<Rightarrow> string list" where
  "py_splitlines s = splitlines_acc [] s"

text \<open>\<^verbatim>\<open>s.split(sep)\<close> for a one-character separator.\<close>

fun split_on :: "char \<Rightarrow> string \<Rightarrow> string \<Rightarrow> string list" where
  "split_on sep cur [] = [rev cur]"
| "split_on sep cur (c # cs) =
     (if c = sep then rev cur # split_on sep [] cs else split_on sep (c # cur) cs)"

definition digits_between :: "nat \<Rightarrow> nat \<Rightarrow> string \<Rightarrow> bool" where
  "digits_between lo hi s = (lo \<le> length s \<and> length s \<le> hi \<and> list_all is_digit s)"

text \<open>
  A match of the pattern
  \<^verbatim>\<open>^\[(?:(\d{1,2}):)?(\d{1,2}):(\d{2})\]\s*(.+?)\s*$\<close>
  on a stripped line without a newline: the groups 1 to 4. On such a line the lazy group 4
  runs to the end of the line, since the line ends in a character that is no whitespace.
\<close>

definition match_timestamped_line :: "string \<Rightarrow> (string option \<times> string \<times> string \<times> string) option" where
  "match_timestamped_line line =
     (case line of
        [] \<Rightarrow> None
      | c # rest \<Rightarrow>
          if c \<noteq> CHR ''['' \<or> CHR '']'' \<notin> set rest then None
          else (let stamp = takeWhile (\<lambda>x. x \<noteq> CHR '']'') rest;
                    body = dropWhile py_space (tl (dropWhile (\<lambda>x. x \<noteq> CHR '']'') rest))
                in if body = [] then None
                   else (case split_on CHR '':'' [] stamp of
                           [hh, mm, ss] \<Rightarrow>
                             if digits_between 1 2 hh \<and> digits_between 1 2 mm \<and> digits_between 2 2 ss
                             then Some (Some hh, mm, ss, body) else None
                         | [mm, ss] \<Rightarrow>
                             if digits_between 1 2 mm \<and> digits_between 2 2 ss
                             then Some (None, mm, ss, body) else None
                         | _ \<Rightarrow> None)))"

definition to_ms :: "int \<Rightarrow> int \<Rightarrow> int \<Rightarrow> int" where
  "to_ms hours minutes seconds = ((hours * 3600) + (minutes * 60) + seconds) * 1000"

text \<open>The loop over \<^verbatim>\<open>enumerate(content.splitlines(), start=1)\<close>, from line \<open>line_no\<close> on.\<close>

fun parse_lines :: "nat \<Rightarrow> string list \<Rightarrow> error + pyval list" where
  "parse_lines line_no [] = Inr []"
| "parse_lines line_no (raw # rest) =
     (let line = py_strip raw
      in if line = [] \<or> py_startswith line ''#'' then parse_lines (Suc line_no) rest
         else (case match_timestamped_line line of
                 None \<Rightarrow> Inl (TimelineImportError
                              (''expected '' @ [CHR 0x27] @ ''[MM:SS] text'' @ [CHR 0x27] @ '' or ''
                                 @ [CHR 0x27] @ ''[HH:MM:SS] text'' @ [CHR 0x27])
                              (Some (int line_no)) ''invalid_timestamped_line'')
               | Some (g1, g2, g3, g4) \<Rightarrow>
                   (let hh = (case g1 of None \<Rightarrow> 0 | Some h \<Rightarrow> int (digits_val h));
                        mm = int (digits_val g2);
                        ss = int (digits_val g3);
                        txt = py_strip g4
                    in if txt = []
                       then Inl (TimelineImportError ''timestamped line is missing narration text''
                                   (Some (int line_no)) ''empty_text'')
                       else if mm \<ge> 60 \<or> ss \<ge> 60
                       then Inl (TimelineImportError ''timestamp has invalid minute/second value''
                                   (Some (int line_no)) ''invalid_timestamp'')
                       else (case parse_lines (Suc line_no) rest of
                               Inl e \<Rightarrow> Inl e
                             | Inr entries \<Rightarrow>
                                 Inr (PDict [(''id'', PStr (''n'' @ show_nat line_no)),
                                             (''start_ms'', PInt (to_ms hh mm ss)),
                                             (''text'', PStr txt),
                                             (''meta'', PDict [(''source_line'', PInt (int line_no)),
                                                               (''source_format'', PStr ''timestamped_txt'')])]
                                      # entries)))))"

definition parse_timestamped_txt :: "string \<Rightarrow> error + pyval list" where
  "parse_timestamped_txt content =
     (case parse_lines 1 (py_splitlines content) of
        Inl e \<Rightarrow> Inl e
      | Inr entries \<Rightarrow>
          if entries = []
          then Inl (TimelineImportError ''no narration lines found in timestamped script'' None ''empty_input'')
          else Inr entries)"

subsection \<open>import\_narration\_timeline\<close>

text \<open>
  The parts of the importer that the timestamped format does not go through: the format
  detection for \<^verbatim>\<open>auto\<close>, the JSON importer and the SRT parser.
\<close>

record import_env =
  detect_import_format :: "string \<Rightarrow> string option \<Rightarrow> string"
  import_json_timeline :: "string \<Rightarrow> error + Timeline"
  parse_srt :: "string \<Rightarrow> error + pyval list"

definition SUPPORTED_IMPORT_FORMATS :: "string set" where
  "SUPPORTED_IMPORT_FORMATS = {''auto'', ''timestamped_txt'', ''srt'', ''json''}"

fun events_from_dicts :: "(pyval \<Rightarrow> string) \<Rightarrow> pydict list \<Rightarrow> error + NarrationEvent list" where
  "events_from_dicts R [] = Inr []"
| "events_from_dicts R (d # ds) =
     (case NarrationEvent_from_dict R d of
        Inl e \<Rightarrow> Inl e
      | Inr ev \<Rightarrow> (case events_from_dicts R ds of Inl e \<Rightarrow> Inl e | Inr evs \<Rightarrow> Inr (ev # evs)))"

definition import_narration_timeline ::
  "import_env \<Rightarrow> (pyval \<Rightarrow> string) \<Rightarrow> string \<Rightarrow> string \<Rightarrow> string option \<Rightarrow> int option
     \<Rightarrow> error + Timeline" where
  "import_narration_timeline env R content import_format source_name video_duration_ms =
     (let fmt0 = py_lower (py_strip (if import_format = [] then ''auto'' else import_format))
      in if fmt0 \<notin> SUPPORTED_IMPORT_FORMATS
         then Inl (TimelineImportError
                     (''unsupported import format '' @ [CHR 0x27] @ import_format @ [CHR 0x27])
                     None ''unsupported_format'')
         else
          (let fmt = (if fmt0 = ''auto'' then detect_import_format env content source_name else fmt0)
           in if fmt = ''json'' then import_json_timeline env content
              else (case (if fmt = ''srt'' then parse_srt env content
                          else if fmt = ''timestamped_txt'' then parse_timestamped_txt content
                          else Inl (TimelineImportError
                                      (''unsupported import format '' @ [CHR 0x27] @ fmt @ [CHR 0x27])
                                      None ''unsupported_format'')) of
                      Inl e \<Rightarrow> Inl e
                    | Inr parsed_events \<Rightarrow>
                       (case normalize_narration_events R parsed_events video_duration_ms 3000 500 of
                          Inl e \<Rightarrow> Inl e
                        | Inr normalized_events \<Rightarrow>
                           (case events_from_dicts R normalized_events of
                              Inl e \<Rightarrow> Inl e
                            | Inr evs \<Rightarrow>
                                Inr \<lparr>timeline_version = TIMELINE_VERSION,
                                     narration_events = evs,
                                     action_events = []\<rparr>)))))"

text \<open>Scenario 1 of the specification: two lines, the later one first.\<close>

definition sample_script :: string where
  "sample_script = ''[00:02] second'' @ [CHR 0x0A] @ ''[00:00] first''"

text \<open>What the parser returns on the sample script, and the prepared events after sorting.\<close>

definition sample_parsed :: "pyval list" where
  "sample_parsed =
      [PDict [(''id'', PStr ''n1''), (''start_ms'', PInt 2000), (''text'', PStr ''second''),
              (''meta'', PDict [(''source_line'', PInt 1), (''source_format'', PStr ''timestamped_txt'')])],
       PDict [(''id'', PStr ''n2''), (''start_ms'', PInt 0), (''text'', PStr ''first''),
              (''meta'', PDict [(''source_line'', PInt 2), (''source_format'', PStr ''timestamped_txt'')])]]"

definition sample_prepared :: "prepared_event list" where
  "sample_prepared =
         [\<lparr>p_raw = [(''id'', PStr ''n2''), (''start_ms'', PInt 0), (''text'', PStr ''first''),
              (''meta'', PDict [(''source_line'', PInt 2), (''source_format'', PStr ''timestamped_txt'')])],
            p_start_ms = 0, p_end_ms = - 1, p_index = 2\<rparr>,
          \<lparr>p_raw = [(''id'', PStr ''n1''), (''start_ms'', PInt 2000), (''text'', PStr ''second''),
              (''meta'', PDict [(''source_line'', PInt 1), (''source_format'', PStr ''timestamped_txt'')])],
            p_start_ms = 2000, p_end_ms = - 1, p_index = 1\<rparr>]"

text \<open>The end of the last event of the sample: five seconds, or the end of a shorter video.\<close>

definition second_end_ms :: "int option \<Rightarrow> int" where
  "second_end_ms video_duration_ms =
     (case video_duration_ms of
        Some d \<Rightarrow> if 0 < d then min 5000 d else 5000
      | None \<Rightarrow> 5000)"

definition sample_import_env :: import_env where
  "sample_import_env =
     \<lparr>detect_import_format = (\<lambda>content source. ''timestamped_txt''),
      import_json_timeline = (\<lambda>content. Inl (TimelineImportError ''invalid JSON'' None ''invalid_json'')),
      parse_srt = (\<lambda>content. Inl (TimelineImportError ''no subtitle blocks'' None ''empty_input''))\<rparr>"

section \<open>The default-filling migration (storage.py, ensure\_project\_defaults)\<close>

definition default_segmentation_settings :: pydict where
  "default_segmentation_settings =
     [(''analysis_fps'', PInt 10), (''min_seg_ms'', PInt 2000), (''max_seg_ms'', PInt 8000),
      (''merge_rule'', PStr ''merge_short_segments''), (''diff_method'', PStr ''frame_diff_energy''),
      (''ocr_delta_enabled'', PBool False)]"

definition default_models_settings :: pydict where
  "default_models_settings =
     [(''vision'', PDict [(''provider'', PStr ''zai_openai_compat''),
                          (''base_url'', PStr ''https://api.z.ai/api/paas/v4/''),
                          (''model'', PStr ''glm-4.6v''),
                          (''temperature'', PFloat (1 / 5)),
                          (''thinking'', PStr ''enabled'')]),
      (''rewrite'', PDict [(''provider'', PStr ''zai_openai_compat''),
                           (''base_url'', PStr ''https://api.z.ai/api/paas/v4/''),
                           (''model'', PStr ''glm-5''),
                           (''temperature'', PFloat (3 / 10))])]"

definition default_narration_settings :: pydict where
  "default_narration_settings =
     [(''wps'', PFloat (9 / 4)), (''min_words'', PInt 4), (''max_words'', PInt 28),
      (''style'', PStr ''present tense, action+result, no filler'')]"

definition default_tts_settings :: pydict where
  "default_tts_settings =
     [(''provider'', PStr ''chatterbox''), (''endpoint'', PStr ''''),
      (''voice_mode'', PStr ''predefined_voice''), (''predefined_voice_id'', PStr ''alloy''),
      (''default_params'', PDict [(''speed_factor'', PFloat 1), (''temperature'', PFloat (4 / 5)),
                                  (''exaggeration'', PFloat (1 / 2)), (''cfg_weight'', PFloat (1 / 2)),
                                  (''seed'', PInt 123), (''language_id'', PStr ''en''),
                                  (''output_format'', PStr ''wav'')])]"

definition default_holistic_settings :: pydict where
  "default_holistic_settings =
     [(''enabled'', PBool False), (''keyframe_density'', PFloat 1),
      (''match_confidence_threshold'', PFloat (1 / 2))]"

definition default_demo_capture_execution_mode :: string where
  "default_demo_capture_execution_mode = ''playwright_optional''"

definition default_timeline :: "pyval list \<Rightarrow> pydict" where
  "default_timeline events =
     [(''timeline_version'', PStr TIMELINE_VERSION),
      (''narration_events'', PList events),
      (''action_events'', PList [])]"

definition default_exports :: pydict where
  "default_exports = [(''artifacts'', PDict []), (''ffmpeg'', PDict [(''commands'', PList [])])]"

definition default_profile_from_tts_settings :: "(pyval \<Rightarrow> string) \<Rightarrow> pydict \<Rightarrow> error + pydict" where
  "default_profile_from_tts_settings R tts_settings =
     (case dict_or_empty (dget tts_settings ''default_params'') of
        Inl e \<Rightarrow> Inl e
      | Inr params \<Rightarrow>
         (let p0 = [(''profile_id'', PStr ''default''),
                    (''display_name'', PStr ''Default''),
                    (''provider'', PStr (py_str R (py_or (dget tts_settings ''provider'') (PStr ''chatterbox'')))),
                    (''voice_mode'',
                       PStr (py_str R (py_or (dget tts_settings ''voice_mode'') (PStr ''predefined_voice'')))),
                    (''params'', PDict params)];
              p1 = (if is_str (dget tts_settings ''endpoint'')
                    then dset p0 ''endpoint'' (dget tts_settings ''endpoint'') else p0);
              p2 = (if is_str (dget tts_settings ''reference_audio_path'')
                       \<and> truthy (dget tts_settings ''reference_audio_path'')
                    then dset p1 ''audio_prompt_path'' (dget tts_settings ''reference_audio_path'') else p1)
          in Inr (if is_str (dget tts_settings ''predefined_voice_id'')
                     \<and> truthy (dget tts_settings ''predefined_voice_id'')
                  then dset p2 ''predefined_voice_id'' (dget tts_settings ''predefined_voice_id'')
                  else p2)))"

text \<open>The loop of \<^verbatim>\<open>_segments_to_narration_events\<close> over \<^verbatim>\<open>enumerate(segments)\<close>.\<close>

fun segment_events ::
  "(pyval \<Rightarrow> string) \<Rightarrow> nat \<Rightarrow> (string \<times> nat) list \<Rightarrow> pyval list \<Rightarrow> pydict list" where
  "segment_events R idx seen_ids [] = []"
| "segment_events R idx seen_ids (segment # rest) =
     (case segment of
        PDict seg \<Rightarrow>
          (let raw_id = (if dhas seg ''id'' then dget seg ''id'' else PInt (int idx));
               base_id = ''n'' @ py_str R raw_id;
               event_id = (case map_of seen_ids base_id of
                             Some c \<Rightarrow> base_id @ ''_'' @ show_nat (c + 1)
                           | None \<Rightarrow> base_id);
               seen' = (case map_of seen_ids base_id of
                          Some c \<Rightarrow> AList.update base_id (c + 1) seen_ids
                        | None \<Rightarrow> AList.update base_id 0 seen_ids);
               start_ms = coerce_int (dget seg ''start_ms'') 0;
               end0 = coerce_int (dget seg ''end_ms'') start_ms;
               end_ms = (if end0 < start_ms then start_ms else end0);
               narration_text = (case dget seg ''narration'' of
                                   PDict n \<Rightarrow> py_str R (py_or (dget n ''selected_text'') (PStr ''''))
                                 | _ \<Rightarrow> '''')
           in [(''id'', PStr event_id),
               (''start_ms'', PInt start_ms),
               (''end_ms'', PInt end_ms),
               (''text'', PStr narration_text),
               (''voice_profile_id'', PStr ''default''),
               (''meta'', PDict [(''source'', PStr ''legacy_segment''),
                                 (''source_segment_id'', raw_id)])]
              # segment_events R (Suc idx) seen' rest)
      | _ \<Rightarrow> segment_events R (Suc idx) seen_ids rest)"

definition segment_event_key :: "pydict \<Rightarrow> int \<times> int \<times> string" where
  "segment_event_key item =
     (coerce_int (dget item ''start_ms'') 0, coerce_int (dget item ''end_ms'') 0,
      (case dget item ''id'' of PStr s \<Rightarrow> s | _ \<Rightarrow> ''''))"

definition segments_to_narration_events :: "(pyval \<Rightarrow> string) \<Rightarrow> pyval \<Rightarrow> pyval list" where
  "segments_to_narration_events R segments =
     (case segments of
        PList segs \<Rightarrow> map PDict (sort_key segment_event_key (segment_events R 0 [] segs))
      | _ \<Rightarrow> [])"

text \<open>
  A dictionary under change together with the \<^verbatim>\<open>changed\<close> flag: \<open>set_when c k v\<close> is
  \<^verbatim>\<open>if c: d[k] = v; changed = True\<close>.
\<close>

definition set_when :: "bool \<Rightarrow> string \<Rightarrow> pyval \<Rightarrow> pydict \<times> bool \<Rightarrow> pydict \<times> bool" where
  "set_when c k v st = (if c then (dset (fst st) k v, True) else st)"

text \<open>The steps of \<^verbatim>\<open>ensure_project_defaults\<close> on \<^verbatim>\<open>settings\<close>, in the order of the source.\<close>

definition ensure_holistic_settings :: "pydict \<times> bool \<Rightarrow> pydict \<times> bool" where
  "ensure_holistic_settings st =
     (let settings = fst st
      in if \<not> dhas settings ''holistic'' \<or> \<not> is_dict (dget settings ''holistic'')
         then (dset settings ''holistic'' (PDict default_holistic_settings), True)
         else (let h0 = (the_dict (dget settings ''holistic''), snd st);
                   h1 = set_when (\<not> dhas (fst h0) ''keyframe_density'') ''keyframe_density'' (PFloat 1) h0;
                   h2 = set_when (\<not> dhas (fst h1) ''match_confidence_threshold'')
                          ''match_confidence_threshold'' (PFloat (1 / 2)) h1
               in (dset settings ''holistic'' (PDict (fst h2)), snd h2)))"

definition ensure_execution_mode :: "(pyval \<Rightarrow> string) \<Rightarrow> pydict \<times> bool \<Rightarrow> pydict \<times> bool" where
  "ensure_execution_mode R st =
     (let settings = fst st;
          m = py_lower (py_strip (py_str R (py_or (dget settings ''demo_capture_execution_mode'') (PStr ''''))))
      in if m \<notin> {''playwright_optional'', ''playwright_required''}
         then (dset settings ''demo_capture_execution_mode'' (PStr default_demo_capture_execution_mode), True)
         else if \<not> py_eq (dget settings ''demo_capture_execution_mode'') (PStr m)
         then (dset settings ''demo_capture_execution_mode'' (PStr m), True)
         else st)"

definition ensure_settings :: "(pyval \<Rightarrow> string) \<Rightarrow> pydict \<times> bool \<Rightarrow> pydict \<times> bool" where
  "ensure_settings R st0 =
     (let s1 = set_when (\<not> is_dict (dget (fst st0) ''segmentation'')) ''segmentation''
                 (PDict default_segmentation_settings) st0;
          s2 = set_when (\<not> is_dict (dget (fst s1) ''models'')) ''models'' (PDict default_models_settings) s1;
          s3 = set_when (\<not> is_dict (dget (fst s2) ''narration'')) ''narration''
                 (PDict default_narration_settings) s2;
          s4 = set_when (\<not> is_dict (dget (fst s3) ''tts'')) ''tts'' (PDict default_tts_settings) s3;
          s5 = set_when (\<not> dhas (fst s4) ''demo_context'' \<or> \<not> is_str (dget (fst s4) ''demo_context''))
                 ''demo_context'' (PStr '''') s4;
          s6 = ensure_holistic_settings s5;
          s7 = set_when (\<not> dhas (fst s6) ''narration_mode'') ''narration_mode'' (PStr ''tts_only'') s6;
          s8 = ensure_execution_mode R s7
      in set_when (\<not> dhas (fst s8) ''holistic_fallback_to_segment'') ''holistic_fallback_to_segment''
           (PBool True) s8)"

text \<open>The steps on the project itself. Each takes and returns the project with the flag.\<close>

definition ensure_exports :: "pydict \<times> bool \<Rightarrow> pydict \<times> bool" where
  "ensure_exports st =
     (let e0 = (if is_dict (dget (fst st) ''exports'')
                then (the_dict (dget (fst st) ''exports''), snd st)
                else (default_exports, True));
          e1 = set_when (\<not> is_dict (dget (fst e0) ''artifacts'')) ''artifacts'' (PDict []) e0;
          e2 = set_when (\<not> is_dict (dget (fst e1) ''ffmpeg'')) ''ffmpeg''
                 (PDict [(''commands'', PList [])]) e1;
          f0 = (the_dict (dget (fst e2) ''ffmpeg''), snd e2);
          f1 = set_when (\<not> is_list (dget (fst f0) ''commands'')) ''commands'' (PList []) f0
      in (dset (fst st) ''exports'' (PDict (dset (fst e2) ''ffmpeg'' (PDict (fst f1)))), snd f1))"

definition ensure_planning :: "pydict \<times> bool \<Rightarrow> pydict \<times> bool" where
  "ensure_planning st =
     (let g0 = (if is_dict (dget (fst st) ''planning'')
                then (the_dict (dget (fst st) ''planning''), snd st)
                else ([], True));
          narration_global = dget (fst g0) ''narration_global'';
          g1 = (if \<not> is_dict narration_global
                then (dset (fst g0) ''narration_global'' (PDict [(''status'', PStr ''not_started'')]), True)
                else if \<not> dhas (the_dict narration_global) ''status''
                then (dset (fst g0) ''narration_global''
                        (PDict (dset (the_dict narration_global) ''status'' (PStr ''not_started''))), True)
                else g0)
      in (dset (fst st) ''planning'' (PDict (fst g1)), snd g1))"

definition ensure_timeline :: "(pyval \<Rightarrow> string) \<Rightarrow> pydict \<times> bool \<Rightarrow> pydict \<times> bool" where
  "ensure_timeline R st =
     (let legacy_narration_events = segments_to_narration_events R (dget (fst st) ''segments'')
      in if \<not> is_dict (dget (fst st) ''timeline'')
         then (dset (fst st) ''timeline'' (PDict (default_timeline legacy_narration_events)), True)
         else (let t0 = (the_dict (dget (fst st) ''timeline''), snd st);
                   t1 = set_when (\<not> py_eq (dget (fst t0) ''timeline_version'') (PStr TIMELINE_VERSION))
                          ''timeline_version'' (PStr TIMELINE_VERSION) t0;
                   t2 = set_when (\<not> is_list (dget (fst t1) ''narration_events''))
                          ''narration_events'' (PList []) t1;
                   t3 = set_when (\<not> is_list (dget (fst t2) ''action_events''))
                          ''action_events'' (PList []) t2;
                   t4 = set_when (\<not> truthy (dget (fst t3) ''narration_events'')
                                    \<and> legacy_narration_events \<noteq> [])
                          ''narration_events'' (PList legacy_narration_events) t3
               in (dset (fst st) ''timeline'' (PDict (fst t4)), snd t4)))"

definition ensure_tts_profiles ::
  "(pyval \<Rightarrow> string) \<Rightarrow> pydict \<Rightarrow> pydict \<times> bool \<Rightarrow> error + (pydict \<times> bool)" where
  "ensure_tts_profiles R tts_settings st =
     (let q0 = (if is_dict (dget (fst st) ''tts_profiles'')
                then (the_dict (dget (fst st) ''tts_profiles''), snd st)
                else ([], True))
      in if \<not> is_dict (dget (fst q0) ''default'')
         then (case default_profile_from_tts_settings R tts_settings of
                 Inl e \<Rightarrow> Inl e
               | Inr profile \<Rightarrow>
                   Inr (dset (fst st) ''tts_profiles'' (PDict (dset (fst q0) ''default'' (PDict profile))), True))
         else (let d0 = (the_dict (dget (fst q0) ''default''), snd q0);
                   d1 = set_when (\<not> truthy (dget (fst d0) ''profile_id'')) ''profile_id'' (PStr ''default'') d0
               in if \<not> is_dict (dget (fst d1) ''params'')
                  then (case dict_or_empty (dget tts_settings ''default_params'') of
                          Inl e \<Rightarrow> Inl e
                        | Inr params \<Rightarrow>
                            Inr (dset (fst st) ''tts_profiles''
                                   (PDict (dset (fst q0) ''default''
                                             (PDict (dset (fst d1) ''params'' (PDict params))))), True))
                  else Inr (dset (fst st) ''tts_profiles'' (PDict (dset (fst q0) ''default'' (PDict (fst d1)))),
                            snd d1)))"

text \<open>
  The list comprehension \<^verbatim>\<open>[normalize(item) for item in history if isinstance(item, dict)]\<close>;
  \<open>clock i\<close> holds the readings of the clock for the entry at position \<open>i\<close>.
\<close>

fun normalize_all ::
  "(stamps \<Rightarrow> pydict \<Rightarrow> error + pydict) \<Rightarrow> (nat \<Rightarrow> stamps) \<Rightarrow> nat \<Rightarrow> pyval list \<Rightarrow> error + pyval list" where
  "normalize_all f clock i [] = Inr []"
| "normalize_all f clock i (item # rest) =
     (case item of
        PDict d \<Rightarrow>
          (case f (clock i) d of
             Inl e \<Rightarrow> Inl e
           | Inr n \<Rightarrow>
               (case normalize_all f clock (Suc i) rest of
                  Inl e \<Rightarrow> Inl e
                | Inr ns \<Rightarrow> Inr (PDict n # ns)))
      | _ \<Rightarrow> normalize_all f clock (Suc i) rest)"

definition ensure_renders ::
  "(pyval \<Rightarrow> string) \<Rightarrow> (nat \<Rightarrow> stamps) \<Rightarrow> pydict \<times> bool \<Rightarrow> error + (pydict \<times> bool)" where
  "ensure_renders R clock st =
     (if \<not> is_dict (dget (fst st) ''renders'')
      then Inr (dset (fst st) ''renders'' (PDict default_renders), True)
      else
        (let r0 = (the_dict (dget (fst st) ''renders''), snd st);
             r1 = set_when (\<not> dhas (fst r0) ''last_render_id'') ''last_render_id'' PNone r0
         in if \<not> is_list (dget (fst r1) ''history'')
            then Inr (dset (fst st) ''renders'' (PDict (dset (fst r1) ''history'' (PList []))), True)
            else
              (case normalize_all (\<lambda>now item. normalize_render_record R now item None) clock 0
                      (the_list (dget (fst r1) ''history'')) of
                 Inl e \<Rightarrow> Inl e
               | Inr normalized_render_history \<Rightarrow>
                  (let trimmed = trim_history normalized_render_history
                                   (history_limit (PInt MAX_RENDER_HISTORY) MAX_RENDER_HISTORY);
                       r2 = set_when (\<not> py_eq (dget (fst r1) ''history'') (PList trimmed))
                              ''history'' (PList trimmed) r1;
                       latest = (if trimmed = [] then ''''
                                 else py_str R (py_or (dget (the_dict (last trimmed)) ''render_id'') (PStr '''')));
                       r3 = set_when (trimmed \<noteq> [] \<and> latest \<noteq> []
                                        \<and> \<not> py_eq (dget (fst r2) ''last_render_id'') (PStr latest))
                              ''last_render_id'' (PStr latest) r2
                   in Inr (dset (fst st) ''renders'' (PDict (fst r3)), snd r3)))))"

definition ensure_demo ::
  "(pyval \<Rightarrow> string) \<Rightarrow> (nat \<Rightarrow> stamps) \<Rightarrow> pydict \<times> bool \<Rightarrow> error + (pydict \<times> bool)" where
  "ensure_demo R clock st =
     (if \<not> is_dict (dget (fst st) ''demo'')
      then Inr (dset (fst st) ''demo'' (PDict default_demo_state), True)
      else
        (let d0 = (the_dict (dget (fst st) ''demo''), snd st);
             d1 = set_when (\<not> dhas (fst d0) ''last_run_id'') ''last_run_id'' PNone d0
         in if \<not> is_list (dget (fst d1) ''runs'')
            then Inr (dset (fst st) ''demo'' (PDict (dset (fst d1) ''runs'' (PList []))), True)
            else
              (case normalize_all (\<lambda>now item. normalize_demo_run_record R now item None) clock 0
                      (the_list (dget (fst d1) ''runs'')) of
                 Inl e \<Rightarrow> Inl e
               | Inr normalized_demo_runs \<Rightarrow>
                  (let trimmed = trim_history normalized_demo_runs
                                   (history_limit (PInt MAX_DEMO_RUN_HISTORY) MAX_DEMO_RUN_HISTORY);
                       d2 = set_when (\<not> py_eq (dget (fst d1) ''runs'') (PList trimmed))
                              ''runs'' (PList trimmed) d1;
                       latest = (if trimmed = [] then ''''
                                 else py_str R (py_or (dget (the_dict (last trimmed)) ''run_id'') (PStr '''')));
                       d3 = set_when (trimmed \<noteq> [] \<and> latest \<noteq> []
                                        \<and> \<not> py_eq (dget (fst d2) ''last_run_id'') (PStr latest))
                              ''last_run_id'' (PStr latest) d2
                   in Inr (dset (fst st) ''demo'' (PDict (fst d3)), snd d3)))))"

text \<open>
  \<^verbatim>\<open>ensure_project_defaults\<close> mutates the project, returns \<^verbatim>\<open>changed\<close> and writes
  \<^verbatim>\<open>demo_context.md\<close>; here it returns the project, the flag and the text written.
\<close>

definition ensure_project_defaults ::
  "(pyval \<Rightarrow> string) \<Rightarrow> (nat \<Rightarrow> stamps) \<Rightarrow> (nat \<Rightarrow> stamps) \<Rightarrow> pydict
     \<Rightarrow> error + (pydict \<times> bool \<times> string)" where
  "ensure_project_defaults R render_clock demo_clock proj =
     (let p0 = set_when (py_str R (py_or (dget proj ''schema_version'') (PStr ''''))
                           \<in> {'''', ''1.0.0'', ''1.1.0'', ''1.2.0''})
                 ''schema_version'' (PStr SCHEMA_VERSION) (proj, False);
          s0 = (if is_dict (dget (fst p0) ''settings'')
                then (the_dict (dget (fst p0) ''settings''), snd p0)
                else ([], True));
          s = ensure_settings R s0;
          p1 = (dset (fst p0) ''settings'' (PDict (fst s)), snd s);
          p2 = set_when (\<not> dhas (fst p1) ''segments'' \<or> \<not> is_list (dget (fst p1) ''segments''))
                 ''segments'' (PList []) p1;
          p3 = ensure_exports p2;
          p4 = ensure_planning p3;
          p5 = set_when (\<not> dhas (fst p4) ''holistic'' \<or> \<not> is_dict (dget (fst p4) ''holistic''))
                 ''holistic'' (PDict [(''status'', PStr ''not_started'')]) p4;
          p6 = ensure_timeline R p5
      in case ensure_tts_profiles R (the_dict (dget (fst s) ''tts'')) p6 of
           Inl e \<Rightarrow> Inl e
         | Inr p7 \<Rightarrow>
            (case ensure_renders R render_clock p7 of
               Inl e \<Rightarrow> Inl e
             | Inr p8 \<Rightarrow>
                (case ensure_demo R demo_clock p8 of
                   Inl e \<Rightarrow> Inl e
                 | Inr p9 \<Rightarrow>
                     Inr (fst p9, snd p9,
                          (case dget (fst s) ''demo_context'' of PStr t \<Rightarrow> t | _ \<Rightarrow> '''')))))"

text \<open>
  A stored project whose one render record failed with the error \<^verbatim>\<open>boom\<close> and carries an
  error summary whose message is a single space.
\<close>

definition sample_stored_project :: pydict where
  "sample_stored_project =
     [(''schema_version'', PStr ''2.0.0''),
      (''renders'', PDict
         [(''last_render_id'', PStr ''r1''),
          (''history'', PList
             [PDict [(''render_id'', PStr ''r1''),
                     (''created_at'', PStr ''2026-01-02T03:04:05+00:00''),
                     (''status'', PStr ''failed''),
                     (''error'', PStr ''boom''),
                     (''error_summary'', PDict [(''message'', PStr '' '')])]])])]"

definition sample_clock :: "nat \<Rightarrow> stamps" where
  "sample_clock i = sample_stamps"

text \<open>The error summary of the first render record of a project.\<close>

definition first_render_summary :: "pydict \<Rightarrow> pyval" where
  "first_render_summary proj =
     (case the_list (dget (the_dict (dget proj ''renders'')) ''history'') of
        PDict record # rest \<Rightarrow> dget record ''error_summary''
      | _ \<Rightarrow> PNone)"

section \<open>Properties of the action validator\<close>

text \<open>
  C10: for a timeline whose \<^verbatim>\<open>"action_events"\<close> key is absent, or holds a value that is
  not a list, \<^verbatim>\<open>parse_action_events\<close> returns the empty list; no error is raised.
\<close>

theorem parse_action_events_not_list:
  assumes "map_of timeline ''action_events'' = None
           \<or> (\<exists>v. map_of timeline ''action_events'' = Some v \<and> (\<forall>xs. v \<noteq> PList xs))"
  shows "parse_action_events R timeline = Inr []"
  using assms
  by (auto simp: parse_action_events_def dget_def split: pyval.splits option.splits)

theorem parse_action_events_not_list_witness:
  "parse_action_events sample_repr [] = Inr []
   \<and> parse_action_events sample_repr [(''action_events'', PStr ''later'')] = Inr []"
  using parse_action_events_not_list [of "[]" sample_repr]
    parse_action_events_not_list [of "[(''action_events'', PStr ''later'')]" sample_repr]
  by simp







section \<open>Properties of the demo runner\<close>


lemma classify_cases:
  "classify_error_type t \<in> {''timeout'', ''transient_browser'', ''transient_network'', ''action_error''}"
  by (simp add: classify_error_type_def Let_def)

lemma retryable_classify:
  "is_retryable_error (classify_error_type t) \<longleftrightarrow>
     (py_in ''timeout'' (py_lower t) \<or> py_in ''target closed'' (py_lower t)
      \<or> py_in ''context closed'' (py_lower t) \<or> py_in ''browser has been closed'' (py_lower t)
      \<or> py_in ''net::'' (py_lower t) \<or> py_in ''connection reset'' (py_lower t))"
  by (simp add: classify_error_type_def is_retryable_error_def Let_def)




section \<open>Properties of the project store\<close>

lemma dget_dset_same [simp]: "dget (dset d k v) k = v"
  by (simp add: dget_def dset_def update_conv')

lemma dget_dset_other [simp]: "k' \<noteq> k \<Longrightarrow> dget (dset d k v) k' = dget d k'"
  by (simp add: dget_def dset_def update_conv')

lemma dhas_dset [simp]: "dhas (dset d k v) k' = (k' = k \<or> dhas d k')"
  by (simp add: dhas_def dset_def update_conv')

lemma trim_history_length:
  "1 \<le> limit \<Longrightarrow> int (length (trim_history xs limit)) \<le> limit"
  by (auto simp: trim_history_def)

lemma trim_history_last:
  "1 \<le> limit \<Longrightarrow> xs \<noteq> [] \<Longrightarrow>
     trim_history xs limit \<noteq> [] \<and> last (trim_history xs limit) = last xs"
  by (auto simp: trim_history_def)

lemma history_limit_range: "1 \<le> dflt \<Longrightarrow> dflt \<le> 500 \<Longrightarrow>
   1 \<le> history_limit v dflt \<and> history_limit v dflt \<le> 500"
  by (auto simp: history_limit_def Let_def)

lemma history_limit_50 [simp]: "history_limit (PInt 50) 50 = 50"
  by (simp add: history_limit_def coerce_int_def)

lemma str_or_nonempty [simp]: "s \<noteq> [] \<Longrightarrow> py_str R (py_or (PStr s) x) = s"
  by (simp add: py_or_def)

lemma normalize_render_record_id:
  assumes "normalize_render_record R now record fb = Inr n"
  shows "\<exists>rid. rid \<noteq> [] \<and> dget n ''render_id'' = PStr rid"
  using assms unfolding normalize_render_record_def Let_def
  by (auto split: sum.splits if_splits)

lemma normalize_demo_run_record_id:
  assumes "normalize_demo_run_record R now record fb = Inr n"
  shows "\<exists>rid. rid \<noteq> [] \<and> dget n ''run_id'' = PStr rid"
  using assms unfolding normalize_demo_run_record_def Let_def
  by (auto split: sum.splits if_splits)

text \<open>
  C3: whenever \<^verbatim>\<open>append_render_history\<close> returns (with the history limit every caller
  passes, \<^verbatim>\<open>MAX_RENDER_HISTORY\<close>), \<^verbatim>\<open>renders.history\<close> is a non-empty list of at most 50
  entries and \<^verbatim>\<open>renders.last_render_id\<close> is the \<^verbatim>\<open>render_id\<close> of its last entry; likewise
  for \<^verbatim>\<open>append_demo_run\<close>, \<^verbatim>\<open>demo.runs\<close> and \<^verbatim>\<open>demo.last_run_id\<close>.
\<close>

theorem append_history_bounded:
  "(append_render_history R now proj render_record render_id MAX_RENDER_HISTORY = Inr (proj', normalized)
      \<longrightarrow> (\<exists>renders history last_id last_record.
             dget proj' ''renders'' = PDict renders
           \<and> dget renders ''history'' = PList history
           \<and> length history \<le> 50
           \<and> history \<noteq> [] \<and> last history = PDict last_record
           \<and> dget renders ''last_render_id'' = PStr last_id
           \<and> dget last_record ''render_id'' = PStr last_id))
   \<and> (append_demo_run R now proj run_record run_id MAX_DEMO_RUN_HISTORY = Inr (proj'', normalized')
      \<longrightarrow> (\<exists>demo runs last_id last_record.
             dget proj'' ''demo'' = PDict demo
           \<and> dget demo ''runs'' = PList runs
           \<and> length runs \<le> 50
           \<and> runs \<noteq> [] \<and> last runs = PDict last_record
           \<and> dget demo ''last_run_id'' = PStr last_id
           \<and> dget last_record ''run_id'' = PStr last_id))"
proof (intro conjI impI)
  assume a: "append_render_history R now proj render_record render_id MAX_RENDER_HISTORY = Inr (proj', normalized)"
  define renders where "renders = (case dget proj ''renders'' of PDict d \<Rightarrow> d | _ \<Rightarrow> default_renders)"
  define history where "history = (case dget renders ''history'' of PList xs \<Rightarrow> xs | _ \<Rightarrow> [])"
  define history' where "history' = trim_history (history @ [PDict normalized]) 50"
  from a have n: "normalize_render_record R now render_record render_id = Inr normalized"
    by (auto simp: append_render_history_def Let_def split: sum.splits)
  from normalize_render_record_id [OF n] obtain rid where
    rid: "rid \<noteq> []" "dget normalized ''render_id'' = PStr rid" by blast
  from a n rid have p: "proj' = dset proj ''renders''
       (PDict (dset (dset renders ''history'' (PList history')) ''last_render_id'' (PStr rid)))"
    by (simp add: append_render_history_def Let_def MAX_RENDER_HISTORY_def
        renders_def history_def history'_def)
  have len: "length history' \<le> 50"
    using trim_history_length [of 50 "history @ [PDict normalized]"] by (simp add: history'_def)
  have lst: "history' \<noteq> [] \<and> last history' = PDict normalized"
    using trim_history_last [of 50 "history @ [PDict normalized]"] by (simp add: history'_def)
  from p len lst rid show "\<exists>renders history last_id last_record.
             dget proj' ''renders'' = PDict renders
           \<and> dget renders ''history'' = PList history
           \<and> length history \<le> 50
           \<and> history \<noteq> [] \<and> last history = PDict last_record
           \<and> dget renders ''last_render_id'' = PStr last_id
           \<and> dget last_record ''render_id'' = PStr last_id"
    by simp
next
  assume a: "append_demo_run R now proj run_record run_id MAX_DEMO_RUN_HISTORY = Inr (proj'', normalized')"
  define demo where "demo = (case dget proj ''demo'' of PDict d \<Rightarrow> d | _ \<Rightarrow> default_demo_state)"
  define runs where "runs = (case dget demo ''runs'' of PList xs \<Rightarrow> xs | _ \<Rightarrow> [])"
  define runs' where "runs' = trim_history (runs @ [PDict normalized']) 50"
  from a have n: "normalize_demo_run_record R now run_record run_id = Inr normalized'"
    by (auto simp: append_demo_run_def Let_def split: sum.splits)
  from normalize_demo_run_record_id [OF n] obtain rid where
    rid: "rid \<noteq> []" "dget normalized' ''run_id'' = PStr rid" by blast
  from a n rid have p: "proj'' = dset proj ''demo''
       (PDict (dset (dset demo ''runs'' (PList runs')) ''last_run_id'' (PStr rid)))"
    by (simp add: append_demo_run_def Let_def MAX_DEMO_RUN_HISTORY_def
        demo_def runs_def runs'_def)
  have len: "length runs' \<le> 50"
    using trim_history_length [of 50 "runs @ [PDict normalized']"] by (simp add: runs'_def)
  have lst: "runs' \<noteq> [] \<and> last runs' = PDict normalized'"
    using trim_history_last [of 50 "runs @ [PDict normalized']"] by (simp add: runs'_def)
  from p len lst rid show "\<exists>demo runs last_id last_record.
             dget proj'' ''demo'' = PDict demo
           \<and> dget demo ''runs'' = PList runs
           \<and> length runs \<le> 50
           \<and> runs \<noteq> [] \<and> last runs = PDict last_record
           \<and> dget demo ''last_run_id'' = PStr last_id
           \<and> dget last_record ''run_id'' = PStr last_id"
    by simp
qed

theorem append_history_bounded_witness:
  "(\<exists>proj' normalized renders history last_id last_record.
       append_render_history sample_repr sample_stamps sample_full_project
         [(''status'', PStr ''completed'')] None MAX_RENDER_HISTORY = Inr (proj', normalized)
     \<and> dget proj' ''renders'' = PDict renders
     \<and> dget renders ''history'' = PList history
     \<and> length history \<le> 50
     \<and> history \<noteq> [] \<and> last history = PDict last_record
     \<and> dget renders ''last_render_id'' = PStr last_id
     \<and> dget last_record ''render_id'' = PStr last_id)
   \<and> (\<exists>proj' normalized demo runs last_id last_record.
       append_demo_run sample_repr sample_stamps sample_full_project
         [(''ok'', PBool True)] (Some ''demo_1'') MAX_DEMO_RUN_HISTORY = Inr (proj', normalized)
     \<and> dget proj' ''demo'' = PDict demo
     \<and> dget demo ''runs'' = PList runs
     \<and> length runs \<le> 50
     \<and> runs \<noteq> [] \<and> last runs = PDict last_record
     \<and> dget demo ''last_run_id'' = PStr last_id
     \<and> dget last_record ''run_id'' = PStr last_id)"
proof -
  have "\<not> isl (append_render_history sample_repr sample_stamps sample_full_project
         [(''status'', PStr ''completed'')] None MAX_RENDER_HISTORY)"
    by code_simp
  then obtain p n where r: "append_render_history sample_repr sample_stamps sample_full_project
         [(''status'', PStr ''completed'')] None MAX_RENDER_HISTORY = Inr (p, n)"
    by (cases "append_render_history sample_repr sample_stamps sample_full_project
         [(''status'', PStr ''completed'')] None MAX_RENDER_HISTORY") auto
  have "\<not> isl (append_demo_run sample_repr sample_stamps sample_full_project
         [(''ok'', PBool True)] (Some ''demo_1'') MAX_DEMO_RUN_HISTORY)"
    by code_simp
  then obtain q m where d: "append_demo_run sample_repr sample_stamps sample_full_project
         [(''ok'', PBool True)] (Some ''demo_1'') MAX_DEMO_RUN_HISTORY = Inr (q, m)"
    by (cases "append_demo_run sample_repr sample_stamps sample_full_project
         [(''ok'', PBool True)] (Some ''demo_1'') MAX_DEMO_RUN_HISTORY") auto
  from append_history_bounded [of sample_repr sample_stamps sample_full_project
      "[(''status'', PStr ''completed'')]" None p n "[(''ok'', PBool True)]" "Some ''demo_1''" q m]
    r d
  show ?thesis by blast
qed

section \<open>Properties of the unified pipeline\<close>

lemma normalize_demo_run_record_keeps:
  assumes "normalize_demo_run_record R now record fb = Inr n"
  shows "dget n ''raw_demo_mp4'' = dget record ''raw_demo_mp4''
       \<and> dget n ''artifact_summary'' = dget record ''artifact_summary''"
  using assms unfolding normalize_demo_run_record_def Let_def
  by (auto split: sum.splits if_splits)

lemma tag_demo_result_keeps:
  "dget (tag_demo_result d rid job qn uid) ''raw_demo_mp4'' = dget d ''raw_demo_mp4''
   \<and> dget (tag_demo_result d rid job qn uid) ''artifact_summary'' = dget d ''artifact_summary''"
  by (simp add: tag_demo_result_def Let_def)

lemma select_source_video_cong:
  "dget a ''raw_demo_mp4'' = dget b ''raw_demo_mp4'' \<Longrightarrow>
   dget a ''artifact_summary'' = dget b ''artifact_summary'' \<Longrightarrow>
   select_source_video fs inp a = select_source_video fs inp b"
proof -
  assume m: "dget a ''raw_demo_mp4'' = dget b ''raw_demo_mp4''"
    and s: "dget a ''artifact_summary'' = dget b ''artifact_summary''"
  from s have pe: "raw_demo_playable a = raw_demo_playable b"
    by (simp add: raw_demo_playable_def)
  show ?thesis
    unfolding select_source_video_def m pe by (rule refl)
qed

text \<open>
  C4: when \<^verbatim>\<open>run_unified_pipeline\<close> reaches the render, and the playability flag of the demo
  record, where present, is a boolean, then the render is invoked with the raw demo mp4 if
  that file exists, has a size above zero, and the artifact summary either has
  \<^verbatim>\<open>raw_demo_playable\<close> equal to true or has no such key; in every other case it is invoked
  with the project's \<^verbatim>\<open>input.mp4\<close>.
\<close>

theorem unified_source_selection:
  assumes run: "unified_source_video R now fs input_mp4 proj demo_result
                  demo_run_id queue_job_id queue_name unified_run_id = Inr (proj', source_video_path)"
    and flag: "\<forall>s. dget demo_result ''artifact_summary'' = PDict s \<and> dhas s ''raw_demo_playable''
                 \<longrightarrow> (\<exists>b. dget s ''raw_demo_playable'' = PBool b)"
  shows "(\<forall>p. dget demo_result ''raw_demo_mp4'' = PStr p
            \<and> (\<exists>sz. stat fs (path_str fs p) = Some sz \<and> 0 < sz)
            \<and> ((\<exists>s. dget demo_result ''artifact_summary'' = PDict s
                    \<and> dget s ''raw_demo_playable'' = PBool True)
               \<or> \<not> (\<exists>s. dget demo_result ''artifact_summary'' = PDict s \<and> dhas s ''raw_demo_playable''))
          \<longrightarrow> source_video_path = path_str fs p)
      \<and> (\<not> (\<exists>p. dget demo_result ''raw_demo_mp4'' = PStr p
            \<and> (\<exists>sz. stat fs (path_str fs p) = Some sz \<and> 0 < sz)
            \<and> ((\<exists>s. dget demo_result ''artifact_summary'' = PDict s
                    \<and> dget s ''raw_demo_playable'' = PBool True)
               \<or> \<not> (\<exists>s. dget demo_result ''artifact_summary'' = PDict s \<and> dhas s ''raw_demo_playable'')))
          \<longrightarrow> source_video_path = input_mp4)"
proof -
  from run obtain stored where
    st: "normalize_demo_run_record R now
           (tag_demo_result demo_result demo_run_id queue_job_id queue_name unified_run_id)
           (Some demo_run_id) = Inr stored"
    and src: "source_video_path = select_source_video fs input_mp4 stored"
    by (auto simp: unified_source_video_def append_demo_run_def Let_def split: if_splits sum.splits)
  from normalize_demo_run_record_keeps [OF st] tag_demo_result_keeps
  have "select_source_video fs input_mp4 stored = select_source_video fs input_mp4 demo_result"
    by (intro select_source_video_cong) simp_all
  with src have sel: "source_video_path = select_source_video fs input_mp4 demo_result" by simp
  show ?thesis
  proof (cases "dget demo_result ''artifact_summary''")
    case (PDict s)
    show ?thesis
    proof (cases "dhas s ''raw_demo_playable''")
      case True
      with flag PDict obtain b where "dget s ''raw_demo_playable'' = PBool b" by blast
      with True PDict sel show ?thesis
        by (auto simp: select_source_video_def raw_demo_playable_def Let_def
            split: pyval.splits option.splits)
    next
      case False
      with PDict sel show ?thesis
        by (auto simp: select_source_video_def raw_demo_playable_def Let_def
            split: pyval.splits option.splits)
    qed
  qed (use sel in \<open>auto simp: select_source_video_def raw_demo_playable_def Let_def
            split: pyval.splits option.splits\<close>)
qed

theorem unified_source_selection_witness:
  "\<exists>proj'. unified_source_video sample_repr sample_stamps sample_fs ''/data/input.mp4'' []
       sample_demo_result ''run_1'' None ''default'' ''unified_1''
     = Inr (proj', ''/data/run_1/raw_demo.mp4'')"
proof -
  have "\<not> isl (unified_source_video sample_repr sample_stamps sample_fs ''/data/input.mp4'' []
       sample_demo_result ''run_1'' None ''default'' ''unified_1'')"
    by code_simp
  then obtain p src where run: "unified_source_video sample_repr sample_stamps sample_fs
       ''/data/input.mp4'' [] sample_demo_result ''run_1'' None ''default'' ''unified_1'' = Inr (p, src)"
    by (cases "unified_source_video sample_repr sample_stamps sample_fs ''/data/input.mp4'' []
       sample_demo_result ''run_1'' None ''default'' ''unified_1''") auto
  have flag: "\<forall>s. dget sample_demo_result ''artifact_summary'' = PDict s \<and> dhas s ''raw_demo_playable''
                 \<longrightarrow> (\<exists>b. dget s ''raw_demo_playable'' = PBool b)"
    by (auto simp: sample_demo_result_def dget_def)
  have cond: "dget sample_demo_result ''raw_demo_mp4'' = PStr ''/data/run_1/raw_demo.mp4''
      \<and> (\<exists>sz. stat sample_fs (path_str sample_fs ''/data/run_1/raw_demo.mp4'') = Some sz \<and> 0 < sz)
      \<and> ((\<exists>s. dget sample_demo_result ''artifact_summary'' = PDict s
               \<and> dget s ''raw_demo_playable'' = PBool True)
          \<or> \<not> (\<exists>s. dget sample_demo_result ''artifact_summary'' = PDict s \<and> dhas s ''raw_demo_playable''))"
    by (simp add: sample_demo_result_def sample_fs_def dget_def)
  from unified_source_selection [OF run flag] cond
  have "src = path_str sample_fs ''/data/run_1/raw_demo.mp4''" by blast
  then have "src = ''/data/run_1/raw_demo.mp4''" by (simp add: sample_fs_def)
  with run show ?thesis by blast
qed

section \<open>Properties of the TTS cache key\<close>







section \<open>Properties of a demo run\<close>





section \<open>Properties of the timeline import\<close>

lemma parsed: "parse_timestamped_txt sample_script = Inr sample_parsed"
  by code_simp

lemma prepared: "\<exists>prepared. prepare_events R 1 sample_parsed = Inr prepared
    \<and> sort_key (\<lambda>item. (p_start_ms item, p_index item)) prepared = sample_prepared"
proof -
  have "map_sum id (sort_key (\<lambda>item. (p_start_ms item, p_index item))) (prepare_events R 1 sample_parsed)
     = Inr sample_prepared"
    by code_simp
  then show ?thesis
    by (cases "prepare_events R 1 sample_parsed") auto
qed

lemma strips: "py_strip ''first'' = ''first''" "py_strip ''second'' = ''second''"
  by code_simp+

lemma loop: "2000 < d \<Longrightarrow> normalize_loop R (Some d) 3000 500 0 [] sample_prepared =
   Inr [[(''id'', PStr ''n2''), (''start_ms'', PInt 0), (''end_ms'', PInt 2000), (''text'', PStr ''first''),
         (''voice_profile_id'', PStr ''default''),
         (''meta'', PDict [(''source_line'', PInt 2), (''source_format'', PStr ''timestamped_txt'')])],
        [(''id'', PStr ''n1''), (''start_ms'', PInt 2000), (''end_ms'', PInt (min 5000 d)), (''text'', PStr ''second''),
         (''voice_profile_id'', PStr ''default''),
         (''meta'', PDict [(''source_line'', PInt 1), (''source_format'', PStr ''timestamped_txt'')])]]"
  by (simp add: sample_prepared_def resolve_end_ms_def Let_def dget_def py_or_def dict_or_empty_def strips
      update_conv' min_def)


lemma loop_unbounded: "normalize_loop R None 3000 500 0 [] sample_prepared =
   Inr [[(''id'', PStr ''n2''), (''start_ms'', PInt 0), (''end_ms'', PInt 2000), (''text'', PStr ''first''),
         (''voice_profile_id'', PStr ''default''),
         (''meta'', PDict [(''source_line'', PInt 2), (''source_format'', PStr ''timestamped_txt'')])],
        [(''id'', PStr ''n1''), (''start_ms'', PInt 2000), (''end_ms'', PInt 5000), (''text'', PStr ''second''),
         (''voice_profile_id'', PStr ''default''),
         (''meta'', PDict [(''source_line'', PInt 1), (''source_format'', PStr ''timestamped_txt'')])]]"
  by (simp add: sample_prepared_def resolve_end_ms_def Let_def dget_def py_or_def dict_or_empty_def strips
      update_conv')

lemma normalized_sample:
  assumes "vd = None \<or> (\<exists>d. vd = Some d \<and> (d \<le> 0 \<or> 2000 < d))"
  shows "normalize_narration_events R sample_parsed vd 3000 500 =
   Inr [[(''id'', PStr ''n2''), (''start_ms'', PInt 0), (''end_ms'', PInt 2000), (''text'', PStr ''first''),
         (''voice_profile_id'', PStr ''default''),
         (''meta'', PDict [(''source_line'', PInt 2), (''source_format'', PStr ''timestamped_txt'')])],
        [(''id'', PStr ''n1''), (''start_ms'', PInt 2000), (''end_ms'', PInt (second_end_ms vd)),
         (''text'', PStr ''second''),
         (''voice_profile_id'', PStr ''default''),
         (''meta'', PDict [(''source_line'', PInt 1), (''source_format'', PStr ''timestamped_txt'')])]]"
proof -
  from prepared [of R] obtain prepared where
    p: "prepare_events R 1 sample_parsed = Inr prepared"
    and s: "sort_key (\<lambda>item. (p_start_ms item, p_index item)) prepared = sample_prepared"
    by blast
  from p have p': "prepare_events R (Suc 0) sample_parsed = Inr prepared" by simp
  have ne: "sample_parsed \<noteq> []" by (simp add: sample_parsed_def)
  from assms consider "vd = None" | d where "vd = Some d" "d \<le> 0" | d where "vd = Some d" "2000 < d"
    by blast
  then show ?thesis
  proof cases
    case 1
    then show ?thesis
      by (simp add: normalize_narration_events_def ne p' s loop_unbounded second_end_ms_def)
  next
    case 2
    then show ?thesis
      by (simp add: normalize_narration_events_def ne p' s loop_unbounded second_end_ms_def)
  next
    case 3
    then show ?thesis
      by (simp add: normalize_narration_events_def ne p' s loop second_end_ms_def)
  qed
qed

lemma format_name: "py_lower (py_strip ''timestamped_txt'') = ''timestamped_txt''"
  by code_simp

text \<open>
  C8: importing the two lines \<^verbatim>\<open>[00:02] second\<close> and \<^verbatim>\<open>[00:00] first\<close> as
  \<^verbatim>\<open>timestamped_txt\<close>, with the video duration unknown or above 2000 ms, gives exactly two
  narration events: first \<^verbatim>\<open>{id: n2, start_ms: 0, end_ms: 2000, text: first}\<close>, then
  \<^verbatim>\<open>{id: n1, start_ms: 2000, text: second}\<close>, which ends at 5000 ms or at the end of the video.
\<close>

theorem import_timestamped_scenario:
  assumes "video_duration_ms = None
           \<or> (\<exists>d. video_duration_ms = Some d \<and> (d \<le> 0 \<or> 2000 < d))"
  shows "import_narration_timeline env R sample_script ''timestamped_txt'' source_name video_duration_ms =
    Inr \<lparr>timeline_version = ''1.0'',
         narration_events =
           [\<lparr>ne_id = ''n2'', ne_start_ms = 0, ne_end_ms = 2000,
              ne_text = ''first'', ne_voice_profile_id = ''default'',
              ne_meta = [(''source_line'', PInt 2), (''source_format'', PStr ''timestamped_txt'')],
              ne_extra = []\<rparr>,
            \<lparr>ne_id = ''n1'', ne_start_ms = 2000, ne_end_ms = second_end_ms video_duration_ms,
              ne_text = ''second'', ne_voice_profile_id = ''default'',
              ne_meta = [(''source_line'', PInt 1), (''source_format'', PStr ''timestamped_txt'')],
              ne_extra = []\<rparr>],
         action_events = []\<rparr>"
  by (simp add: import_narration_timeline_def format_name SUPPORTED_IMPORT_FORMATS_def parsed
      normalized_sample [OF assms] NarrationEvent_from_dict_def dict_or_empty_def py_or_def dget_def
      coerce_int_def TIMELINE_VERSION_def Let_def)

theorem import_timestamped_scenario_witness:
  "import_narration_timeline sample_import_env sample_repr sample_script ''timestamped_txt'' None None =
    Inr \<lparr>timeline_version = ''1.0'',
         narration_events =
           [\<lparr>ne_id = ''n2'', ne_start_ms = 0, ne_end_ms = 2000,
              ne_text = ''first'', ne_voice_profile_id = ''default'',
              ne_meta = [(''source_line'', PInt 2), (''source_format'', PStr ''timestamped_txt'')],
              ne_extra = []\<rparr>,
            \<lparr>ne_id = ''n1'', ne_start_ms = 2000, ne_end_ms = 5000,
              ne_text = ''second'', ne_voice_profile_id = ''default'',
              ne_meta = [(''source_line'', PInt 1), (''source_format'', PStr ''timestamped_txt'')],
              ne_extra = []\<rparr>],
         action_events = []\<rparr>
   \<and> (\<exists>tl. import_narration_timeline sample_import_env sample_repr sample_script
               ''timestamped_txt'' None (Some 4000) = Inr tl
          \<and> map ne_end_ms (narration_events tl) = [2000, 4000])"
  using import_timestamped_scenario [of None sample_import_env sample_repr None]
    import_timestamped_scenario [of "Some 4000" sample_import_env sample_repr None]
  by (simp add: second_end_ms_def)

text \<open>
  Every event \<^verbatim>\<open>normalize_narration_events\<close> returns ends after it starts, whatever the
  video duration, as long as the minimum duration is positive (it is 500 ms by default).
\<close>

lemma resolve_end_ms_after_start:
  "0 < mn \<Longrightarrow> p_start_ms item < resolve_end_ms bounded dflt mn item later"
  by (auto simp: resolve_end_ms_def Let_def split: option.splits)

lemma normalize_loop_end_after_start:
  assumes "0 < mn" and "normalize_loop R bounded dflt mn idx seen items = Inr out"
  shows "\<forall>e \<in> set out. \<exists>s t. dget e ''start_ms'' = PInt s \<and> dget e ''end_ms'' = PInt t \<and> s < t"
  using assms(2)
proof (induction items arbitrary: idx seen out)
  case Nil
  then show ?case by simp
next
  case (Cons item later)
  show ?case
  proof (cases "case bounded of Some b \<Rightarrow> p_start_ms item \<ge> b | None \<Rightarrow> False")
    case True
    with Cons.prems have "normalize_loop R bounded dflt mn (Suc idx) seen later = Inr out"
      by simp
    from Cons.IH [OF this] show ?thesis .
  next
    case False
    with Cons.prems obtain m seen' rest where
      rest: "normalize_loop R bounded dflt mn (Suc idx) seen' later = Inr rest"
      and out: "\<exists>i tx v. out = [(''id'', PStr i), (''start_ms'', PInt (p_start_ms item)),
                  (''end_ms'', PInt (resolve_end_ms bounded dflt mn item later)),
                  (''text'', PStr tx), (''voice_profile_id'', PStr v), (''meta'', PDict m)] # rest"
      by (auto simp: Let_def split: sum.splits)
    from out obtain i tx v where
      o: "out = [(''id'', PStr i), (''start_ms'', PInt (p_start_ms item)),
                  (''end_ms'', PInt (resolve_end_ms bounded dflt mn item later)),
                  (''text'', PStr tx), (''voice_profile_id'', PStr v), (''meta'', PDict m)] # rest"
      by blast
    from Cons.IH [OF rest] resolve_end_ms_after_start [OF assms(1), of item bounded dflt later]
    show ?thesis
      unfolding o by (simp add: dget_def)
  qed
qed

lemma normalize_end_after_start:
  assumes "0 < min_duration_ms"
    and "normalize_narration_events R raw_events video_duration_ms default_duration_ms min_duration_ms
           = Inr out"
  shows "\<forall>e \<in> set out. \<exists>s t. dget e ''start_ms'' = PInt s \<and> dget e ''end_ms'' = PInt t \<and> s < t"
proof (cases "raw_events = []")
  case True
  with assms(2) show ?thesis by (simp add: normalize_narration_events_def)
next
  case False
  with assms(2) obtain bounded items where
    "normalize_loop R bounded default_duration_ms min_duration_ms 0 [] items = Inr out"
    by (auto simp: normalize_narration_events_def Let_def split: sum.splits if_splits)
  from normalize_loop_end_after_start [OF assms(1) this] show ?thesis .
qed

text \<open>
  C1: the events \<^verbatim>\<open>normalize_narration_events\<close> returns should carry pairwise distinct
  ids. On the input ids \<^verbatim>\<open>a\<close>, \<^verbatim>\<open>a\<close>, \<^verbatim>\<open>a_1\<close> the function returns the ids \<^verbatim>\<open>a\<close>,
  \<^verbatim>\<open>a_1\<close>, \<^verbatim>\<open>a_1\<close>: the id made up for the second event is not recorded as seen, and
  the third event takes it again.
\<close>

theorem normalize_ids_collide:
  "normalize_narration_events sample_repr sample_colliding_events None 3000 500 =
     Inr [[(''id'', PStr ''a''), (''start_ms'', PInt 0), (''end_ms'', PInt 1000), (''text'', PStr ''one''),
           (''voice_profile_id'', PStr ''default''), (''meta'', PDict [])],
          [(''id'', PStr ''a_1''), (''start_ms'', PInt 1000), (''end_ms'', PInt 2000), (''text'', PStr ''two''),
           (''voice_profile_id'', PStr ''default''), (''meta'', PDict [])],
          [(''id'', PStr ''a_1''), (''start_ms'', PInt 2000), (''end_ms'', PInt 3000), (''text'', PStr ''three''),
           (''voice_profile_id'', PStr ''default''), (''meta'', PDict [])]]
   \<and> \<not> distinct [PStr ''a'', PStr ''a_1'', PStr ''a_1'']"
  by code_simp

end
